theory Spec2Isabelle
  imports Complex_Main "HOL-Library.Multiset" "HOL-Library.Char_ord" "HOL-Library.List_Lexorder"
begin

section \<open>Data model of the launch path (package instance)\<close>

text \<open>
  Prices are Go \<^verbatim>\<open>float64\<close> values. They are modelled as reals: every finite
  float is a real and the comparisons \<^verbatim>\<open><\<close>, \<^verbatim>\<open><=\<close>, \<^verbatim>\<open>==\<close> of finite floats are
  the comparisons of the reals they denote. NaN and the infinities are not modelled, and the
  one product the code computes (\<^verbatim>\<open>cheapestOnDemand * 0.72\<close>) is taken exactly.
\<close>

record Offering =
  CapacityType :: string
  Zone :: string
  Price :: real
  Available :: bool

text \<open>
  \<^verbatim>\<open>scheduling.Requirements\<close> is a map from label keys to requirements, and a missing
  key reads as a requirement that admits every value. The launch path only ever asks
  \<^verbatim>\<open>requirements.Get(key).Has(value)\<close>, so a requirement set is modelled by that
  two-place test.
\<close>

type_synonym Requirements = "string \<Rightarrow> string \<Rightarrow> bool"

definition Get :: "Requirements \<Rightarrow> string \<Rightarrow> string \<Rightarrow> bool" where
  "Get requirements key = requirements key"

record InstanceType =
  Name :: string
  Requirements :: Requirements
  Offerings :: "Offering list"
  Capacity :: "string \<rightharpoonup> int"

text \<open>
  \<^verbatim>\<open>machine.Spec.Requirements\<close>, already converted by
  \<^verbatim>\<open>scheduling.NewNodeSelectorRequirements\<close>.
\<close>

record Machine =
  SpecRequirements :: Requirements

definition CapacityTypeSpot :: string where
  "CapacityTypeSpot = ''spot''"

definition CapacityTypeOnDemand :: string where
  "CapacityTypeOnDemand = ''on-demand''"

definition LabelCapacityType :: string where
  "LabelCapacityType = ''karpenter.sh/capacity-type''"

definition LabelTopologyZone :: string where
  "LabelTopologyZone = ''topology.kubernetes.io/zone''"

definition LabelInstanceSize :: string where
  "LabelInstanceSize = ''karpenter.k8s.aws/instance-size''"

definition ResourceAWSNeuron :: string where
  "ResourceAWSNeuron = ''aws.amazon.com/neuron''"

definition ResourceAMDGPU :: string where
  "ResourceAMDGPU = ''amd.com/gpu''"

definition ResourceNVIDIAGPU :: string where
  "ResourceNVIDIAGPU = ''nvidia.com/gpu''"

definition ResourceHabanaGaudi :: string where
  "ResourceHabanaGaudi = ''habana.ai/gaudi''"

definition MaxFloat64 :: real where
  "MaxFloat64 = (2 ^ 53 - 1) * 2 ^ 971"

definition MaxInstanceTypes :: nat where
  "MaxInstanceTypes = 60"

definition instanceTypeFlexibilityThreshold :: nat where
  "instanceTypeFlexibilityThreshold = 5"

subsection \<open>Offerings helpers of the core library\<close>

text \<open>
  \<^verbatim>\<open>Offerings.Available\<close>, \<^verbatim>\<open>Offerings.Requirements\<close> and
  \<^verbatim>\<open>Offerings.Cheapest\<close> belong to the core library the provider is built on. They
  filter on the \<^verbatim>\<open>Available\<close> flag, filter on the zone and capacity-type requirements,
  and return the first offering of least price (\<^verbatim>\<open>lo.MinBy\<close>; the zero offering on
  an empty slice).
\<close>

definition AvailableOfs :: "Offering list \<Rightarrow> Offering list" where
  "AvailableOfs ofs = filter Available ofs"

definition RequirementsOfs :: "Requirements \<Rightarrow> Offering list \<Rightarrow> Offering list" where
  "RequirementsOfs reqs ofs =
     filter (\<lambda>offering. Get reqs LabelTopologyZone (Zone offering)
                       \<and> Get reqs LabelCapacityType (CapacityType offering)) ofs"

definition zeroOffering :: Offering where
  "zeroOffering = \<lparr>CapacityType = [], Zone = [], Price = 0, Available = False\<rparr>"

fun MinBy :: "('a \<Rightarrow> 'a \<Rightarrow> bool) \<Rightarrow> 'a \<Rightarrow> 'a list \<Rightarrow> 'a" where
  "MinBy comparison m [] = m"
| "MinBy comparison m (item # rest) =
     MinBy comparison (if comparison item m then item else m) rest"

definition Cheapest :: "Offering list \<Rightarrow> Offering" where
  "Cheapest ofs =
     (case ofs of [] \<Rightarrow> zeroOffering
      | first # rest \<Rightarrow> MinBy (\<lambda>a b. Price a < Price b) first rest)"

subsection \<open>getCapacityType\<close>

text \<open>
  The two nested loops return at the first available offering that is spot and lies in an
  admitted zone.
\<close>

fun spotOfferingIn :: "Requirements \<Rightarrow> Offering list \<Rightarrow> bool" where
  "spotOfferingIn requirements [] = False"
| "spotOfferingIn requirements (offering # rest) =
     (if Get requirements LabelTopologyZone (Zone offering)
         \<and> CapacityType offering = CapacityTypeSpot
      then True else spotOfferingIn requirements rest)"

fun spotOfferingAmong :: "Requirements \<Rightarrow> InstanceType list \<Rightarrow> bool" where
  "spotOfferingAmong requirements [] = False"
| "spotOfferingAmong requirements (instanceType # rest) =
     (if spotOfferingIn requirements (AvailableOfs (Offerings instanceType))
      then True else spotOfferingAmong requirements rest)"

definition getCapacityType :: "Machine \<Rightarrow> InstanceType list \<Rightarrow> string" where
  "getCapacityType machine instanceTypes =
     (let requirements = SpecRequirements machine in
      if Get requirements LabelCapacityType CapacityTypeSpot
         \<and> spotOfferingAmong requirements instanceTypes
      then CapacityTypeSpot
      else CapacityTypeOnDemand)"

subsection \<open>Instance type filtering\<close>

definition IsZero :: "int option \<Rightarrow> bool" where
  "IsZero q = (case q of None \<Rightarrow> True | Some v \<Rightarrow> v = 0)"

text \<open>The test under which the loop of \<^verbatim>\<open>filterExoticInstanceTypes\<close> skips a type.\<close>

definition exotic :: "InstanceType \<Rightarrow> bool" where
  "exotic it =
     (if Get (Requirements it) LabelInstanceSize ''metal'' then True
      else \<not> IsZero (Capacity it ResourceAWSNeuron)
         \<or> \<not> IsZero (Capacity it ResourceAMDGPU)
         \<or> \<not> IsZero (Capacity it ResourceNVIDIAGPU)
         \<or> \<not> IsZero (Capacity it ResourceHabanaGaudi))"

definition filterExoticInstanceTypes :: "InstanceType list \<Rightarrow> InstanceType list" where
  "filterExoticInstanceTypes instanceTypes =
     (let genericInstanceTypes = filter (\<lambda>it. \<not> exotic it) instanceTypes in
      if length genericInstanceTypes \<noteq> 0 then genericInstanceTypes else instanceTypes)"

text \<open>
  \<^verbatim>\<open>isMixedCapacityLaunch\<close>: the pair of flags \<^verbatim>\<open>(hasSpotOfferings, hasODOffering)\<close>
  is threaded through the two loops.
\<close>

definition markOffering :: "Requirements \<Rightarrow> bool \<times> bool \<Rightarrow> Offering \<Rightarrow> bool \<times> bool" where
  "markOffering requirements flags offering =
     (if Get requirements LabelTopologyZone (Zone offering)
      then (if CapacityType offering = CapacityTypeSpot
            then (True, snd flags) else (fst flags, True))
      else flags)"

definition markInstanceType :: "Requirements \<Rightarrow> bool \<times> bool \<Rightarrow> InstanceType \<Rightarrow> bool \<times> bool" where
  "markInstanceType requirements flags instanceType =
     foldl (markOffering requirements) flags (AvailableOfs (Offerings instanceType))"

definition isMixedCapacityLaunch :: "Machine \<Rightarrow> InstanceType list \<Rightarrow> bool" where
  "isMixedCapacityLaunch machine instanceTypes =
     (let requirements = SpecRequirements machine in
      if \<not> Get requirements LabelCapacityType CapacityTypeSpot
         \<or> \<not> Get requirements LabelCapacityType CapacityTypeOnDemand
      then False
      else
        (let flags =
               (if Get requirements LabelCapacityType CapacityTypeSpot
                then foldl (markInstanceType requirements) (False, False) instanceTypes
                else (False, False))
         in fst flags \<and> snd flags))"

text \<open>
  \<^verbatim>\<open>filterUnwantedSpot\<close>: first the running minimum \<^verbatim>\<open>cheapestOnDemand\<close>, which
  starts at \<^verbatim>\<open>math.MaxFloat64\<close>, then the filter on the cheapest available offering of
  each type.
\<close>

definition lowerOnDemand :: "real \<Rightarrow> Offering \<Rightarrow> real" where
  "lowerOnDemand cheapestOnDemand offering =
     (if CapacityType offering = CapacityTypeOnDemand \<and> Price offering < cheapestOnDemand
      then Price offering else cheapestOnDemand)"

definition cheapestOnDemandOf :: "InstanceType list \<Rightarrow> real" where
  "cheapestOnDemandOf instanceTypes =
     foldl (\<lambda>cheapestOnDemand it. foldl lowerOnDemand cheapestOnDemand (AvailableOfs (Offerings it)))
       MaxFloat64 instanceTypes"

definition keepForMixedLaunch :: "real \<Rightarrow> InstanceType \<Rightarrow> bool" where
  "keepForMixedLaunch cheapestOnDemand item =
     (let available = AvailableOfs (Offerings item) in
      if length available = 0 then False
      else
        (let cheapest = Cheapest available in
         if CapacityType cheapest = CapacityTypeOnDemand
         then Price cheapest \<le> cheapestOnDemand
         else Price cheapest \<le> cheapestOnDemand * 0.72))"

definition filterUnwantedSpot :: "InstanceType list \<Rightarrow> InstanceType list" where
  "filterUnwantedSpot instanceTypes =
     filter (keepForMixedLaunch (cheapestOnDemandOf instanceTypes)) instanceTypes"

definition filterInstanceTypes :: "Machine \<Rightarrow> InstanceType list \<Rightarrow> InstanceType list" where
  "filterInstanceTypes machine instanceTypes =
     (let instanceTypes1 = filterExoticInstanceTypes instanceTypes in
      if isMixedCapacityLaunch machine instanceTypes1
      then filterUnwantedSpot instanceTypes1
      else instanceTypes1)"

subsection \<open>Ordering by price\<close>

text \<open>
  \<^verbatim>\<open>sort.Slice\<close> is the standard library's in-place sort by a user-supplied
  \<^verbatim>\<open>less\<close>; it promises no particular order among elements neither of which is less
  than the other. It is modelled by a sort that places each element in front of the first
  element that is not less than it.
\<close>

fun placeBy :: "('a \<Rightarrow> 'a \<Rightarrow> bool) \<Rightarrow> 'a \<Rightarrow> 'a list \<Rightarrow> 'a list" where
  "placeBy lessFn x [] = [x]"
| "placeBy lessFn x (y # ys) = (if lessFn y x then y # placeBy lessFn x ys else x # y # ys)"

definition sortSlice :: "('a \<Rightarrow> 'a \<Rightarrow> bool) \<Rightarrow> 'a list \<Rightarrow> 'a list" where
  "sortSlice lessFn xs = foldr (placeBy lessFn) xs []"

text \<open>
  The price the comparison function of \<^verbatim>\<open>orderInstanceTypesByPrice\<close> computes for one
  side (\<^verbatim>\<open>iPrice\<close>, \<^verbatim>\<open>jPrice\<close>).
\<close>

definition orderPrice :: "Requirements \<Rightarrow> InstanceType \<Rightarrow> real" where
  "orderPrice requirements it =
     (if length (RequirementsOfs requirements (AvailableOfs (Offerings it))) > 0
      then Price (Cheapest (RequirementsOfs requirements (AvailableOfs (Offerings it))))
      else MaxFloat64)"

definition lessByPrice :: "Requirements \<Rightarrow> InstanceType \<Rightarrow> InstanceType \<Rightarrow> bool" where
  "lessByPrice requirements a b =
     (let iPrice = orderPrice requirements a; jPrice = orderPrice requirements b in
      if iPrice = jPrice then Name a > Name b else iPrice < jPrice)"

definition orderInstanceTypesByPrice :: "InstanceType list \<Rightarrow> Requirements \<Rightarrow> InstanceType list" where
  "orderInstanceTypesByPrice instanceTypes requirements =
     sortSlice (lessByPrice requirements) instanceTypes"

text \<open>
  The first three statements of \<^verbatim>\<open>Provider.Create\<close>: filter, order, truncate. The
  result is the list handed to \<^verbatim>\<open>launchInstance\<close>.
\<close>

definition launchCandidates :: "Machine \<Rightarrow> InstanceType list \<Rightarrow> InstanceType list" where
  "launchCandidates machine instanceTypes =
     (let instanceTypes1 = filterInstanceTypes machine instanceTypes;
          instanceTypes2 = orderInstanceTypesByPrice instanceTypes1 (SpecRequirements machine)
      in if length instanceTypes2 > MaxInstanceTypes
         then take MaxInstanceTypes instanceTypes2
         else instanceTypes2)"

section \<open>The launch itself: errors, collaborators, state\<close>

text \<open>
  Go errors as values. \<^verbatim>\<open>AwsError code requestID\<close> is an error of the cloud SDK
  (\<^verbatim>\<open>awserr.Error\<close>), which is a \<^verbatim>\<open>RequestFailure\<close> when it carries a request id.
  \<^verbatim>\<open>Errorf format err\<close> is \<^verbatim>\<open>fmt.Errorf(format, err)\<close> with one \<^verbatim>\<open>%w\<close>.
  \<^verbatim>\<open>Multi\<close> is the result of \<^verbatim>\<open>multierr.Append\<close> over the messages drawn from a
  string set (Go iterates the set in no fixed order); \<^verbatim>\<open>Multi {}\<close> is the nil error.
\<close>

datatype error =
    AwsError string "string option"
  | ErrorString string
  | Errorf string error
  | Multi "string set"
  | InsufficientCapacityError error

record Subnet =
  SubnetId :: string
  AvailabilityZone :: string

record FleetLaunchTemplateOverridesRequest =
  OverrideInstanceType :: string
  OverrideSubnetId :: string
  OverrideAvailabilityZone :: string

record FleetLaunchTemplateConfigRequest =
  Overrides :: "FleetLaunchTemplateOverridesRequest list"
  LaunchTemplateName :: string
  LaunchTemplateId :: string
  Version :: string

record CreateFleetInput =
  FleetType :: string
  LaunchTemplateConfigs :: "FleetLaunchTemplateConfigRequest list"
  DefaultTargetCapacityType :: string
  TotalTargetCapacity :: int
  SpotAllocationStrategy :: "string option"
  OnDemandAllocationStrategy :: "string option"

record CreateFleetError =
  ErrorCode :: string
  ErrorMessage :: string
  ErrorInstanceType :: string
  ErrorAvailabilityZone :: string

record CreateFleetInstance =
  InstanceIds :: "string list"

record CreateFleetOutput =
  Instances :: "CreateFleetInstance list"
  Errors :: "CreateFleetError list"

record Instance =
  InstanceId :: string
  InstanceTypeName :: string
  PrivateDnsName :: string

text \<open>
  The collaborators of \<^verbatim>\<open>instance.Provider\<close> whose code is outside this package. Each
  answer may differ from one call to the next, so each takes the number of the call:
  the number of the \<^verbatim>\<open>launchInstance\<close> attempt for the subnet provider, the launch
  template provider and the fleet API, the number of the try for \<^verbatim>\<open>Get\<close>.
  \<^verbatim>\<open>IsUnfulfillableCapacity\<close> is the classifier of package \<^verbatim>\<open>errors\<close> that
  recognises the capacity error codes.
\<close>

record Provider =
  ZonalSubnetsForLaunch :: "nat \<Rightarrow> InstanceType list \<Rightarrow> string \<Rightarrow> error + (string \<rightharpoonup> Subnet)"
  EnsureAll :: "nat \<Rightarrow> InstanceType list \<Rightarrow> string \<Rightarrow> error + (string \<times> InstanceType list) list"
  CreateFleet :: "nat \<Rightarrow> CreateFleetInput \<Rightarrow> error + CreateFleetOutput"
  GetInstance :: "nat \<Rightarrow> string \<Rightarrow> error + Instance"
  IsUnfulfillableCapacity :: "CreateFleetError \<Rightarrow> bool"

text \<open>
  What the launch changes outside its return value: the number of \<^verbatim>\<open>launchInstance\<close>
  attempts made, the fleet requests issued, the \<^verbatim>\<open>(name, id)\<close> pairs passed to
  \<^verbatim>\<open>launchTemplateProvider.Invalidate\<close>, the \<^verbatim>\<open>(instance type, zone, capacity type)\<close>
  triples marked in the unavailable-offerings cache, and the warnings logged.
\<close>

record World =
  launches :: nat
  fleetCalls :: "CreateFleetInput list"
  invalidated :: "(string \<times> string) list"
  unavailableOfferings :: "(string \<times> string \<times> string) list"
  warnings :: "error list"

text \<open>
  Modelled from the spec: \<^verbatim>\<open>awserrors.IsLaunchTemplateNotFound\<close> (package
  \<^verbatim>\<open>errors\<close> is not among the sources). The fleet call reports a missing template as
  \<^verbatim>\<open>InvalidLaunchTemplateName.NotFoundException\<close>; the test looks through
  \<^verbatim>\<open>%w\<close> wrappers for an SDK error with that code, as \<^verbatim>\<open>errors.As\<close> does.
\<close>

definition launchTemplateNotFoundCode :: string where
  "launchTemplateNotFoundCode = ''InvalidLaunchTemplateName.NotFoundException''"

fun IsLaunchTemplateNotFound :: "error \<Rightarrow> bool" where
  "IsLaunchTemplateNotFound (AwsError code requestID) = (code = launchTemplateNotFoundCode)"
| "IsLaunchTemplateNotFound (Errorf format err) = IsLaunchTemplateNotFound err"
| "IsLaunchTemplateNotFound (ErrorString text) = False"
| "IsLaunchTemplateNotFound (Multi messages) = False"
| "IsLaunchTemplateNotFound (InsufficientCapacityError err) = False"

text \<open>\<^verbatim>\<open>errors.As(err, &reqFailure)\<close>: the request id of the first SDK error in the chain.\<close>

fun asRequestFailure :: "error \<Rightarrow> string option" where
  "asRequestFailure (AwsError code requestID) = requestID"
| "asRequestFailure (Errorf format err) = asRequestFailure err"
| "asRequestFailure (ErrorString text) = None"
| "asRequestFailure (Multi messages) = None"
| "asRequestFailure (InsufficientCapacityError err) = None"

subsection \<open>combineFleetErrors and the unavailable-offerings cache\<close>

definition fleetErrorText :: "CreateFleetError \<Rightarrow> string" where
  "fleetErrorText err = ErrorCode err @ '': '' @ ErrorMessage err"

definition combineFleetErrors :: "(CreateFleetError \<Rightarrow> bool) \<Rightarrow> CreateFleetError list \<Rightarrow> error" where
  "combineFleetErrors isUnfulfillableCapacity errors =
     (let unique = set (map fleetErrorText errors);
          errs = Multi unique;
          iceErrorCount = length (filter isUnfulfillableCapacity errors)
      in if iceErrorCount = length errors
         then InsufficientCapacityError (Errorf ''with fleet error(s), %w'' errs)
         else Errorf ''with fleet error(s), %w'' errs)"

text \<open>
  Modelled from the spec: \<^verbatim>\<open>UnavailableOfferings.MarkUnavailableForFleetErr\<close> (package
  \<^verbatim>\<open>cache\<close> is not among the sources) takes the instance type and the zone from the
  error's override and marks the triple.
\<close>

definition MarkUnavailableForFleetErr :: "CreateFleetError \<Rightarrow> string \<Rightarrow> World \<Rightarrow> World" where
  "MarkUnavailableForFleetErr err capacityType w =
     w\<lparr>unavailableOfferings := unavailableOfferings w
          @ [(ErrorInstanceType err, ErrorAvailabilityZone err, capacityType)]\<rparr>"

definition updateUnavailableOfferingsCache ::
  "Provider \<Rightarrow> CreateFleetError list \<Rightarrow> string \<Rightarrow> World \<Rightarrow> World" where
  "updateUnavailableOfferingsCache p errors capacityType w =
     foldl (\<lambda>w' err. if IsUnfulfillableCapacity p err
                      then MarkUnavailableForFleetErr err capacityType w' else w')
       w errors"

subsection \<open>Launch template configurations\<close>

definition getOverrides ::
  "InstanceType list \<Rightarrow> (string \<rightharpoonup> Subnet) \<Rightarrow> (string \<Rightarrow> bool) \<Rightarrow> string
     \<Rightarrow> FleetLaunchTemplateOverridesRequest list" where
  "getOverrides instanceTypes zonalSubnets zones capacityType =
     (let unwrappedOfferings =
            concat (map (\<lambda>it. map (\<lambda>of'. (of', Name it)) (AvailableOfs (Offerings it)))
                      instanceTypes)
      in concat (map (\<lambda>(offering, parentInstanceTypeName).
           if capacityType \<noteq> CapacityType offering then []
           else if \<not> zones (Zone offering) then []
           else (case zonalSubnets (Zone offering) of
                   None \<Rightarrow> []
                 | Some subnet \<Rightarrow>
                     [\<lparr>OverrideInstanceType = parentInstanceTypeName,
                       OverrideSubnetId = SubnetId subnet,
                       OverrideAvailabilityZone = AvailabilityZone subnet\<rparr>]))
         unwrappedOfferings))"

definition getLaunchTemplateConfigs ::
  "Provider \<Rightarrow> nat \<Rightarrow> Machine \<Rightarrow> InstanceType list \<Rightarrow> (string \<rightharpoonup> Subnet) \<Rightarrow> string
     \<Rightarrow> error + FleetLaunchTemplateConfigRequest list" where
  "getLaunchTemplateConfigs p n machine instanceTypes zonalSubnets capacityType =
     (case EnsureAll p n instanceTypes capacityType of
        Inl err \<Rightarrow> Inl (Errorf ''getting launch templates, %w'' err)
      | Inr launchTemplates \<Rightarrow>
          (let launchTemplateConfigs =
                 filter (\<lambda>launchTemplateConfig. length (Overrides launchTemplateConfig) > 0)
                   (map (\<lambda>(launchTemplateName, instanceTypes').
                        \<lparr>Overrides = getOverrides instanceTypes' zonalSubnets
                                       (Get (SpecRequirements machine) LabelTopologyZone)
                                       capacityType,
                          LaunchTemplateName = launchTemplateName,
                          LaunchTemplateId = [],
                          Version = ''$Latest''\<rparr>)
                      launchTemplates)
           in if length launchTemplateConfigs = 0
              then Inl (ErrorString
                     ''no capacity offerings are currently available given the constraints'')
              else Inr launchTemplateConfigs))"

definition checkODFallback ::
  "Machine \<Rightarrow> InstanceType list \<Rightarrow> FleetLaunchTemplateConfigRequest list \<Rightarrow> error option" where
  "checkODFallback machine instanceTypes launchTemplateConfigs =
     (if getCapacityType machine instanceTypes \<noteq> CapacityTypeOnDemand
         \<or> \<not> Get (SpecRequirements machine) LabelCapacityType CapacityTypeSpot
      then None
      else if length instanceTypes < instanceTypeFlexibilityThreshold
      then Some (ErrorString
             ''at least 5 instance types are recommended when flexible to spot but requesting on-demand'')
      else None)"

subsection \<open>launchInstance and Create\<close>

text \<open>
  The fleet request \<^verbatim>\<open>launchInstance\<close> builds. The tag specifications and the
  node template's context do not bear on any result below and are left out.
\<close>

definition createFleetInput ::
  "FleetLaunchTemplateConfigRequest list \<Rightarrow> string \<Rightarrow> CreateFleetInput" where
  "createFleetInput launchTemplateConfigs capacityType =
     \<lparr>FleetType = ''instant'',
      LaunchTemplateConfigs = launchTemplateConfigs,
      DefaultTargetCapacityType = capacityType,
      TotalTargetCapacity = 1,
      SpotAllocationStrategy =
        (if capacityType = CapacityTypeSpot then Some ''price-capacity-optimized'' else None),
      OnDemandAllocationStrategy =
        (if capacityType = CapacityTypeSpot then None else Some ''lowest-price'')\<rparr>"

text \<open>
  \<^verbatim>\<open>launchInstance\<close> returns the instance id or an error, and the changed world.
  \<^verbatim>\<open>subnetProvider.UpdateInflightIPs\<close>, called after the fleet request, only updates
  the subnet provider's own bookkeeping and is not modelled.
\<close>

definition launchInstance ::
  "Provider \<Rightarrow> Machine \<Rightarrow> InstanceType list \<Rightarrow> World \<Rightarrow> (error + string) \<times> World" where
  "launchInstance p machine instanceTypes w0 =
     (let n = launches w0;
          w = w0\<lparr>launches := Suc n\<rparr>;
          capacityType = getCapacityType machine instanceTypes
      in case ZonalSubnetsForLaunch p n instanceTypes capacityType of
           Inl err \<Rightarrow> (Inl (Errorf ''getting subnets, %w'' err), w)
         | Inr zonalSubnets \<Rightarrow>
        (case getLaunchTemplateConfigs p n machine instanceTypes zonalSubnets capacityType of
           Inl err \<Rightarrow> (Inl (Errorf ''getting launch template configs, %w'' err), w)
         | Inr launchTemplateConfigs \<Rightarrow>
        (let w1 = (case checkODFallback machine instanceTypes launchTemplateConfigs of
                     Some err \<Rightarrow> w\<lparr>warnings := warnings w @ [err]\<rparr>
                   | None \<Rightarrow> w);
             input = createFleetInput launchTemplateConfigs capacityType;
             w2 = w1\<lparr>fleetCalls := fleetCalls w1 @ [input]\<rparr>
         in case CreateFleet p n input of
              Inl err \<Rightarrow>
                (if IsLaunchTemplateNotFound err
                 then (Inl (Errorf ''creating fleet %w'' err),
                       w2\<lparr>invalidated := invalidated w2
                            @ map (\<lambda>lt. (LaunchTemplateName lt, LaunchTemplateId lt))
                                launchTemplateConfigs\<rparr>)
                 else (case asRequestFailure err of
                         Some requestID \<Rightarrow>
                           (Inl (Errorf (''creating fleet %w ('' @ requestID @ '')'') err), w2)
                       | None \<Rightarrow> (Inl (Errorf ''creating fleet %w'' err), w2)))
            | Inr createFleetOutput \<Rightarrow>
                (let w3 = updateUnavailableOfferingsCache p (Errors createFleetOutput)
                            capacityType w2
                 in case Instances createFleetOutput of
                      [] \<Rightarrow> (Inl (combineFleetErrors (IsUnfulfillableCapacity p)
                                     (Errors createFleetOutput)), w3)
                    | instance # _ \<Rightarrow>
                        (case InstanceIds instance of
                           [] \<Rightarrow> (Inl (combineFleetErrors (IsUnfulfillableCapacity p)
                                          (Errors createFleetOutput)), w3)
                         | instanceId # _ \<Rightarrow> (Inr instanceId, w3))))))"

text \<open>
  \<^verbatim>\<open>retry.Do\<close> with \<^verbatim>\<open>Attempts(6)\<close> and \<^verbatim>\<open>LastErrorOnly(true)\<close>: the function is
  tried until it succeeds, at most the given number of times, and the last error is the
  one reported. The first argument counts the tries that remain, the second the tries made.
\<close>

fun retryDo :: "nat \<Rightarrow> nat \<Rightarrow> (nat \<Rightarrow> error + 'a) \<Rightarrow> error \<Rightarrow> error + 'a" where
  "retryDo 0 made f lastErr = Inl lastErr"
| "retryDo (Suc remaining) made f lastErr =
     (case f made of
        Inr v \<Rightarrow> Inr v
      | Inl err \<Rightarrow> retryDo remaining (Suc made) f err)"

definition isLaunchTemplateNotFoundResult :: "error + string \<Rightarrow> bool" where
  "isLaunchTemplateNotFoundResult r =
     (case r of Inl err \<Rightarrow> IsLaunchTemplateNotFound err | Inr _ \<Rightarrow> False)"

text \<open>
  \<^verbatim>\<open>Provider.Create\<close>. The body of \<^verbatim>\<open>Provider.Get\<close> (a batched describe call and
  the checks on its output) is not unfolded: what each try returns is the collaborator
  \<^verbatim>\<open>GetInstance\<close>. The final log line has no effect on the result.
\<close>

definition Create ::
  "Provider \<Rightarrow> Machine \<Rightarrow> InstanceType list \<Rightarrow> World \<Rightarrow> (error + Instance) \<times> World" where
  "Create p machine instanceTypes0 w0 =
     (let instanceTypes = launchCandidates machine instanceTypes0;
          first = launchInstance p machine instanceTypes w0;
          final = (if isLaunchTemplateNotFoundResult (fst first)
                   then launchInstance p machine instanceTypes (snd first)
                   else first)
      in case fst final of
           Inl err \<Rightarrow> (Inl err, snd final)
         | Inr instanceId \<Rightarrow>
             (case retryDo 6 0 (\<lambda>try. GetInstance p try instanceId) (ErrorString []) of
                Inl err \<Rightarrow>
                  (Inl (Errorf (''retrieving node name for instance '' @ instanceId @ '', %w'')
                          err), snd final)
              | Inr instance \<Rightarrow> (Inr instance, snd final)))"

text \<open>
  \<^verbatim>\<open>cloudprovider.IsInsufficientCapacityError\<close> of the core library: the error is the
  dedicated \<^verbatim>\<open>InsufficientCapacityError\<close>.
\<close>

definition IsInsufficientCapacityError :: "error \<Rightarrow> bool" where
  "IsInsufficientCapacityError err =
     (case err of InsufficientCapacityError _ \<Rightarrow> True | _ \<Rightarrow> False)"

text \<open>
  The test \<^verbatim>\<open>len(Instances) == 0 || len(Instances[0].InstanceIds) == 0\<close> of
  \<^verbatim>\<open>launchInstance\<close>, for stating results.
\<close>

definition noInstances :: "CreateFleetOutput \<Rightarrow> bool" where
  "noInstances out =
     (case Instances out of [] \<Rightarrow> True | instance # _ \<Rightarrow> InstanceIds instance = [])"

text \<open>
  The launch template configurations an attempt of \<^verbatim>\<open>launchInstance\<close> puts into its
  fleet request; none when the attempt fails before it has any.
\<close>

definition resolvedTemplates ::
  "Provider \<Rightarrow> Machine \<Rightarrow> InstanceType list \<Rightarrow> World \<Rightarrow> FleetLaunchTemplateConfigRequest list" where
  "resolvedTemplates p machine instanceTypes w =
     (case ZonalSubnetsForLaunch p (launches w) instanceTypes
             (getCapacityType machine instanceTypes) of
        Inl _ \<Rightarrow> []
      | Inr zonalSubnets \<Rightarrow>
          (case getLaunchTemplateConfigs p (launches w) machine instanceTypes zonalSubnets
                  (getCapacityType machine instanceTypes) of
             Inl _ \<Rightarrow> []
           | Inr launchTemplateConfigs \<Rightarrow> launchTemplateConfigs))"





section \<open>The instance type catalog (package instancetype)\<close>

text \<open>
  Resource quantities (\<^verbatim>\<open>resource.Quantity\<close>) are modelled by their value, an integer:
  bytes for memory and storage.
\<close>

record InstanceStorageInfo =
  TotalSizeInGB :: "int option"
  NvmeSupport :: "string option"

record InstanceTypeInfo =
  InstanceType :: string
  SupportedUsageClasses :: "string list"
  InstanceStorageInfo :: "InstanceStorageInfo option"

record BlockDevice =
  VolumeSize :: "int option"

record BlockDeviceMapping =
  DeviceName :: "string option"
  EBS :: "BlockDevice option"
  RootVolume :: bool

text \<open>
  The AMI families are declared in package \<^verbatim>\<open>amifamily\<close>, which is not among the
  sources. What the catalog asks of a family is kept as data: whether it is the Custom family
  (the type switch of \<^verbatim>\<open>ephemeralStorage\<close>), its feature flags, the name of its ephemeral
  block device and its default block device mappings.
\<close>

record FeatureFlags =
  UsesENILimitedMemoryOverhead :: bool
  PodsPerCoreEnabled :: bool
  EvictionSoftEnabled :: bool
  SupportsENILimitedPodDensity :: bool

record AMIFamily =
  IsCustom :: bool
  FeatureFlags :: FeatureFlags
  EphemeralBlockDevice :: "string option"
  DefaultBlockDeviceMappings :: "BlockDeviceMapping list"

subsection \<open>createOfferings\<close>





subsection \<open>evictionThreshold\<close>

















subsection \<open>ephemeralStorage\<close>

text \<open>
  A nil pointer that the code dereferences makes it panic; the panic is a result of its own.
  The function returns a pointer to a quantity, which can be nil.
\<close>

datatype panic = NilPointerDereference

definition InstanceStorePolicyRAID0 :: string where
  "InstanceStorePolicyRAID0 = ''RAID0''"

definition Gi :: int where
  "Gi = 1024 * 1024 * 1024"

text \<open>
  Modelled from the spec: \<^verbatim>\<open>amifamily.DefaultEBS.VolumeSize\<close> (package
  \<^verbatim>\<open>amifamily\<close> is not among the sources), the system default of 20 GiB.
\<close>

definition DefaultEBSVolumeSize :: "int option" where
  "DefaultEBSVolumeSize = Some (20 * Gi)"

text \<open>\<^verbatim>\<open>blockDeviceMapping.EBS.VolumeSize\<close>, where \<^verbatim>\<open>EBS\<close> is a pointer.\<close>

definition ebsVolumeSize :: "BlockDeviceMapping \<Rightarrow> panic + int option" where
  "ebsVolumeSize blockDeviceMapping =
     (case EBS blockDeviceMapping of
        None \<Rightarrow> Inl NilPointerDereference
      | Some ebs \<Rightarrow> Inr (VolumeSize ebs))"

text \<open>
  \<^verbatim>\<open>lo.Find\<close> with the test \<^verbatim>\<open>*bdm.DeviceName == *amiFamily.EphemeralBlockDevice()\<close>:
  both pointers are dereferenced at every mapping the search looks at.
\<close>

fun findDevice :: "string option \<Rightarrow> BlockDeviceMapping list \<Rightarrow> panic + BlockDeviceMapping option" where
  "findDevice ephemeralBlockDevice [] = Inr None"
| "findDevice ephemeralBlockDevice (bdm # rest) =
     (case DeviceName bdm of
        None \<Rightarrow> Inl NilPointerDereference
      | Some deviceName \<Rightarrow>
          (case ephemeralBlockDevice of
             None \<Rightarrow> Inl NilPointerDereference
           | Some ephemeral \<Rightarrow>
               if deviceName = ephemeral then Inr (Some bdm)
               else findDevice ephemeralBlockDevice rest))"

text \<open>The first test of \<^verbatim>\<open>ephemeralStorage\<close>: the size of the local store under RAID0.\<close>

definition raid0Size :: "InstanceTypeInfo \<Rightarrow> string option \<Rightarrow> int option" where
  "raid0Size info instanceStorePolicy =
     (if (case instanceStorePolicy of None \<Rightarrow> [] | Some policy \<Rightarrow> policy) = InstanceStorePolicyRAID0
      then (case InstanceStorageInfo info of
              None \<Rightarrow> None
            | Some storage \<Rightarrow>
                (case TotalSizeInGB storage of
                   None \<Rightarrow> None
                 | Some totalSizeInGB \<Rightarrow> Some (totalSizeInGB * 1000000000)))
      else None)"

text \<open>The end of \<^verbatim>\<open>ephemeralStorage\<close>: the family's default mapping, then the default.\<close>

definition familyDefaultStorage :: "AMIFamily \<Rightarrow> panic + int option" where
  "familyDefaultStorage amiFamily =
     (case findDevice (EphemeralBlockDevice amiFamily) (DefaultBlockDeviceMappings amiFamily) of
        Inl p \<Rightarrow> Inl p
      | Inr (Some ephemeralBlockDevice) \<Rightarrow> ebsVolumeSize ephemeralBlockDevice
      | Inr None \<Rightarrow> Inr DefaultEBSVolumeSize)"

definition ephemeralStorage ::
  "InstanceTypeInfo \<Rightarrow> AMIFamily \<Rightarrow> BlockDeviceMapping list \<Rightarrow> string option \<Rightarrow> panic + int option" where
  "ephemeralStorage info amiFamily blockDeviceMappings instanceStorePolicy =
     (case raid0Size info instanceStorePolicy of
        Some localStore \<Rightarrow> Inr (Some localStore)
      | None \<Rightarrow>
          if length blockDeviceMappings \<noteq> 0
          then
            (case (case find RootVolume blockDeviceMappings of
                     None \<Rightarrow> Inr None
                   | Some blockDeviceMapping \<Rightarrow> ebsVolumeSize blockDeviceMapping) of
               Inl p \<Rightarrow> Inl p
             | Inr (Some volumeSize) \<Rightarrow> Inr (Some volumeSize)
             | Inr None \<Rightarrow>
                 if IsCustom amiFamily
                 then (case ebsVolumeSize (last blockDeviceMappings) of
                         Inl p \<Rightarrow> Inl p
                       | Inr (Some volumeSize) \<Rightarrow> Inr (Some volumeSize)
                       | Inr None \<Rightarrow> Inr DefaultEBSVolumeSize)
                 else (case findDevice (EphemeralBlockDevice amiFamily) blockDeviceMappings of
                         Inl p \<Rightarrow> Inl p
                       | Inr None \<Rightarrow> familyDefaultStorage amiFamily
                       | Inr (Some blockDeviceMapping) \<Rightarrow>
                           (case ebsVolumeSize blockDeviceMapping of
                              Inl p \<Rightarrow> Inl p
                            | Inr (Some volumeSize) \<Rightarrow> Inr (Some volumeSize)
                            | Inr None \<Rightarrow> familyDefaultStorage amiFamily)))
          else familyDefaultStorage amiFamily)"

text \<open>
  For stating results. \<open>localNVMe\<close> is the test by which \<^verbatim>\<open>computeRequirements\<close> gives a
  type the local-NVMe label: instance storage whose NVMe support is not
  \<^verbatim>\<open>unsupported\<close>. \<open>sizeOf\<close> is the volume size of a mapping, if it has one.
\<close>

definition localNVMe :: "InstanceTypeInfo \<Rightarrow> bool" where
  "localNVMe info =
     (case InstanceStorageInfo info of
        None \<Rightarrow> False
      | Some storage \<Rightarrow>
          (case NvmeSupport storage of None \<Rightarrow> [] | Some support \<Rightarrow> support) \<noteq> ''unsupported'')"

definition sizeOf :: "BlockDeviceMapping \<Rightarrow> int option" where
  "sizeOf bdm = (case EBS bdm of None \<Rightarrow> None | Some ebs \<Rightarrow> VolumeSize ebs)"

definition orElse :: "'a option \<Rightarrow> 'a option \<Rightarrow> 'a option" where
  "orElse first second = (case first of Some v \<Rightarrow> Some v | None \<Rightarrow> second)"

text \<open>
  The precedence as the specification words it: the local store under RAID0 counts only
  for a type with NVMe instance storage.
\<close>

definition specifiedEphemeralStorage ::
  "InstanceTypeInfo \<Rightarrow> AMIFamily \<Rightarrow> BlockDeviceMapping list \<Rightarrow> string option \<Rightarrow> int option" where
  "specifiedEphemeralStorage info amiFamily blockDeviceMappings instanceStorePolicy =
     orElse (if localNVMe info then raid0Size info instanceStorePolicy else None)
    (orElse (case find (\<lambda>bdm. RootVolume bdm \<and> sizeOf bdm \<noteq> None) blockDeviceMappings of
               None \<Rightarrow> None | Some bdm \<Rightarrow> sizeOf bdm)
    (if IsCustom amiFamily \<and> blockDeviceMappings \<noteq> []
     then orElse (sizeOf (last blockDeviceMappings)) DefaultEBSVolumeSize
     else
       orElse (case find (\<lambda>bdm. DeviceName bdm = EphemeralBlockDevice amiFamily
                                 \<and> sizeOf bdm \<noteq> None) blockDeviceMappings of
                 None \<Rightarrow> None | Some bdm \<Rightarrow> sizeOf bdm)
      (case find (\<lambda>bdm. DeviceName bdm = EphemeralBlockDevice amiFamily)
              (DefaultBlockDeviceMappings amiFamily) of
         Some bdm \<Rightarrow> sizeOf bdm
       | None \<Rightarrow> DefaultEBSVolumeSize)))"

text \<open>
  The precedence the code follows: under RAID0 any instance storage with a total size
  counts; of the mappings, the first root volume and the first mapping with the family's
  ephemeral device name are the ones looked at.
\<close>

definition codedEphemeralStorage ::
  "InstanceTypeInfo \<Rightarrow> AMIFamily \<Rightarrow> BlockDeviceMapping list \<Rightarrow> string option \<Rightarrow> int option" where
  "codedEphemeralStorage info amiFamily blockDeviceMappings instanceStorePolicy =
     orElse (raid0Size info instanceStorePolicy)
    (orElse (case find RootVolume blockDeviceMappings of
               None \<Rightarrow> None | Some bdm \<Rightarrow> sizeOf bdm)
    (if IsCustom amiFamily \<and> blockDeviceMappings \<noteq> []
     then orElse (sizeOf (last blockDeviceMappings)) DefaultEBSVolumeSize
     else
       orElse (case find (\<lambda>bdm. DeviceName bdm = EphemeralBlockDevice amiFamily)
                      blockDeviceMappings of
                 None \<Rightarrow> None | Some bdm \<Rightarrow> sizeOf bdm)
      (case find (\<lambda>bdm. DeviceName bdm = EphemeralBlockDevice amiFamily)
              (DefaultBlockDeviceMappings amiFamily) of
         Some bdm \<Rightarrow> sizeOf bdm
       | None \<Rightarrow> DefaultEBSVolumeSize)))"

text \<open>
  No pointer that \<^verbatim>\<open>ephemeralStorage\<close> may dereference is nil: every mapping has its
  device name and its \<^verbatim>\<open>EBS\<close> block, and the family declares an ephemeral device name,
  unless it is the Custom family and has no default mappings. And: at most one mapping is a
  root volume, as admission requires, and at most one has the family's ephemeral device name.
\<close>

definition noNilPointers :: "AMIFamily \<Rightarrow> BlockDeviceMapping list \<Rightarrow> bool" where
  "noNilPointers amiFamily blockDeviceMappings =
     (list_all (\<lambda>bdm. EBS bdm \<noteq> None \<and> DeviceName bdm \<noteq> None)
        (blockDeviceMappings @ DefaultBlockDeviceMappings amiFamily)
      \<and> (EphemeralBlockDevice amiFamily = None \<longrightarrow>
           IsCustom amiFamily \<and> DefaultBlockDeviceMappings amiFamily = []))"

definition singleCandidates :: "AMIFamily \<Rightarrow> BlockDeviceMapping list \<Rightarrow> bool" where
  "singleCandidates amiFamily blockDeviceMappings =
     (length (filter RootVolume blockDeviceMappings) \<le> 1
      \<and> length (filter (\<lambda>bdm. DeviceName bdm = EphemeralBlockDevice amiFamily)
                  blockDeviceMappings) \<le> 1)"


section \<open>The node class status controller (package status)\<close>

text \<open>
  \<^verbatim>\<open>reconcile.Result\<close> of the controller runtime; a duration is its number of
  nanoseconds. \<^verbatim>\<open>Result{}\<close> is the zero result.
\<close>

record Result =
  Requeue :: bool
  RequeueAfter :: int

definition zeroResult :: Result where
  "zeroResult = \<lparr>Requeue = False, RequeueAfter = 0\<rparr>"

definition IsZeroResult :: "Result \<Rightarrow> bool" where
  "IsZeroResult r = (r = zeroResult)"

definition MaxInt64 :: int where
  "MaxInt64 = 2 ^ 63 - 1"

definition Minute :: int where
  "Minute = 60 * 1000000000"

text \<open>
  \<^verbatim>\<open>result.Min\<close> of the core library: the result that wants to requeue the soonest.
  Zero results are skipped; the loop keeps the least delay seen so far, starting from
  \<^verbatim>\<open>math.MaxInt64\<close>, and the result built from it.
\<close>

fun MinLoop :: "int \<Rightarrow> Result \<Rightarrow> Result list \<Rightarrow> Result" where
  "MinLoop least result [] = result"
| "MinLoop least result (r # rest) =
     (if IsZeroResult r then MinLoop least result rest
      else if RequeueAfter r < least
      then MinLoop (RequeueAfter r) \<lparr>Requeue = True, RequeueAfter = RequeueAfter r\<rparr> rest
      else MinLoop least result rest)"

definition Min_result :: "Result list \<Rightarrow> Result" where
  "Min_result results = MinLoop MaxInt64 zeroResult results"

text \<open>
  A node class, as far as the controller looks at it: its finalizers and the rest, which
  the resolvers change.
\<close>

record 's EC2NodeClass =
  Finalizers :: "string list"
  Content :: 's

definition TerminationFinalizer :: string where
  "TerminationFinalizer = ''karpenter.k8s.aws/termination''"

definition AddFinalizer :: "'s EC2NodeClass \<Rightarrow> string \<Rightarrow> 's EC2NodeClass" where
  "AddFinalizer nodeClass finalizer =
     (if finalizer \<in> set (Finalizers nodeClass) then nodeClass
      else nodeClass\<lparr>Finalizers := Finalizers nodeClass @ [finalizer]\<rparr>)"

text \<open>
  A \<^verbatim>\<open>nodeClassStatusReconciler\<close> returns a result and maybe an error, and may change
  the node class. The controller holds the five resolvers and the cluster client, whose two
  patch calls take the object and the stored copy; \<^verbatim>\<open>IsNotFound\<close> is the API machinery's
  test behind \<^verbatim>\<open>client.IgnoreNotFound\<close>.
\<close>

type_synonym 's nodeClassStatusReconciler =
  "'s EC2NodeClass \<Rightarrow> (Result \<times> error option) \<times> 's EC2NodeClass"

record 's Controller =
  kubeClientPatch :: "'s EC2NodeClass \<Rightarrow> 's EC2NodeClass \<Rightarrow> error option"
  kubeClientStatusPatch :: "'s EC2NodeClass \<Rightarrow> 's EC2NodeClass \<Rightarrow> error option"
  IsNotFound :: "error \<Rightarrow> bool"
  ami :: "'s nodeClassStatusReconciler"
  subnet :: "'s nodeClassStatusReconciler"
  securitygroup :: "'s nodeClassStatusReconciler"
  instanceprofile :: "'s nodeClassStatusReconciler"
  readiness :: "'s nodeClassStatusReconciler"

text \<open>
  \<^verbatim>\<open>multierr.Append\<close>: the accumulated error is the list of the errors appended so far,
  the empty list being nil; appending nil changes nothing.
\<close>

definition Append :: "error list \<Rightarrow> error option \<Rightarrow> error list" where
  "Append errs err = (case err of None \<Rightarrow> errs | Some e \<Rightarrow> errs @ [e])"

definition IgnoreNotFound :: "'s Controller \<Rightarrow> error \<Rightarrow> error option" where
  "IgnoreNotFound c err = (if IsNotFound c err then None else Some err)"

text \<open>
  The state of the loop over the resolvers: the results and errors collected, the node
  class as changed so far, and the names of the resolvers invoked, in order.
\<close>

record 's Run =
  results :: "Result list"
  errs :: "error list"
  object :: "'s EC2NodeClass"
  invoked :: "string list"

definition invoke :: "'s Run \<Rightarrow> string \<times> 's nodeClassStatusReconciler \<Rightarrow> 's Run" where
  "invoke run named =
     (let outcome = snd named (object run);
          res = fst (fst outcome);
          err = snd (fst outcome)
      in \<lparr>results = results run @ [res],
          errs = Append (errs run) err,
          object = snd outcome,
          invoked = invoked run @ [fst named]\<rparr>)"

definition runReconcilers :: "'s Controller \<Rightarrow> 's EC2NodeClass \<Rightarrow> 's Run" where
  "runReconcilers c nodeClass =
     foldl invoke \<lparr>results = [], errs = [], object = nodeClass, invoked = []\<rparr>
       [(''ami'', ami c),
        (''subnet'', subnet c),
        (''securitygroup'', securitygroup c),
        (''instanceprofile'', instanceprofile c),
        (''readiness'', readiness c)]"

text \<open>
  \<^verbatim>\<open>Controller.Reconcile\<close> returns the result and the error (the empty list for nil);
  the changed node class and the resolvers invoked are returned with them.
\<close>

definition Reconcile ::
  "'s Controller \<Rightarrow> 's EC2NodeClass
     \<Rightarrow> (Result \<times> error list) \<times> 's EC2NodeClass \<times> string list" where
  "Reconcile c nodeClass0 =
     (let patched =
            (if TerminationFinalizer \<notin> set (Finalizers nodeClass0)
             then (let stored = nodeClass0;
                       nodeClass = AddFinalizer nodeClass0 TerminationFinalizer
                   in (kubeClientPatch c nodeClass stored, nodeClass))
             else (None, nodeClass0))
      in case fst patched of
           Some err \<Rightarrow> ((zeroResult, [err]), snd patched, [])
         | None \<Rightarrow>
             (let stored = snd patched;
                  run = runReconcilers c stored;
                  nodeClass = object run;
                  errs1 =
                    (if stored \<noteq> nodeClass
                     then (case kubeClientStatusPatch c nodeClass stored of
                             Some err \<Rightarrow> Append (errs run) (IgnoreNotFound c err)
                           | None \<Rightarrow> errs run)
                     else errs run)
              in if errs1 \<noteq> []
                 then ((zeroResult, errs1), nodeClass, invoked run)
                 else ((Min_result (results run), []), nodeClass, invoked run)))"

text \<open>
  For stating results: what the five resolvers return when run one after the other, each
  on the node class the one before left; the errors among these outcomes; and the error
  of the final status patch, if the node class changed and the patch failed with an error
  that is not a not-found error.
\<close>

definition outcomes ::
  "'s Controller \<Rightarrow> 's EC2NodeClass \<Rightarrow> ((Result \<times> error option) \<times> 's EC2NodeClass) list" where
  "outcomes c nodeClass =
     (let o1 = ami c nodeClass;
          o2 = subnet c (snd o1);
          o3 = securitygroup c (snd o2);
          o4 = instanceprofile c (snd o3);
          o5 = readiness c (snd o4)
      in [o1, o2, o3, o4, o5])"

definition errorsOf :: "((Result \<times> error option) \<times> 's EC2NodeClass) list \<Rightarrow> error list" where
  "errorsOf os = concat (map (\<lambda>outcome. case snd (fst outcome) of None \<Rightarrow> [] | Some e \<Rightarrow> [e]) os)"

definition resultsOf :: "((Result \<times> error option) \<times> 's EC2NodeClass) list \<Rightarrow> Result list" where
  "resultsOf os = map (\<lambda>outcome. fst (fst outcome)) os"

definition statusPatchErrors :: "'s Controller \<Rightarrow> 's EC2NodeClass \<Rightarrow> 's EC2NodeClass \<Rightarrow> error list" where
  "statusPatchErrors c stored nodeClass =
     (if stored \<noteq> nodeClass
      then (case kubeClientStatusPatch c nodeClass stored of
              None \<Rightarrow> []
            | Some err \<Rightarrow> if IsNotFound c err then [] else [err])
      else [])"

section \<open>Example inputs\<close>

definition demoSpot :: Offering where
  "demoSpot = \<lparr>CapacityType = ''spot'', Zone = ''us-west-2a'', Price = 0.03, Available = True\<rparr>"

definition demoType :: InstanceType where
  "demoType = \<lparr>Name = ''m5.large'', Requirements = (\<lambda>k v. False), Offerings = [demoSpot],
     Capacity = Map.empty\<rparr>"

definition anyMachine :: Machine where
  "anyMachine = \<lparr>SpecRequirements = (\<lambda>k v. True)\<rparr>"

definition onDemandMachine :: Machine where
  "onDemandMachine =
     \<lparr>SpecRequirements = (\<lambda>k v. k = LabelCapacityType \<longrightarrow> v = CapacityTypeOnDemand)\<rparr>"

definition demoSubnet :: Subnet where
  "demoSubnet = \<lparr>SubnetId = ''subnet-1'', AvailabilityZone = ''us-west-2a''\<rparr>"

text \<open>
  A provider whose subnet and launch template collaborators always succeed, and whose fleet
  API answers attempt \<open>n\<close> with \<open>fleet n\<close>.
\<close>

definition demoProvider :: "(nat \<Rightarrow> error + CreateFleetOutput) \<Rightarrow> Provider" where
  "demoProvider fleet =
     \<lparr>ZonalSubnetsForLaunch = (\<lambda>n its capacityType. Inr [''us-west-2a'' \<mapsto> demoSubnet]),
      EnsureAll = (\<lambda>n its capacityType. Inr [(''karpenter-lt'', its)]),
      CreateFleet = (\<lambda>n input. fleet n),
      GetInstance = (\<lambda>try instanceId.
         Inr \<lparr>InstanceId = instanceId, InstanceTypeName = ''m5.large'',
              PrivateDnsName = ''ip-10-0-0-1''\<rparr>),
      IsUnfulfillableCapacity = (\<lambda>err. ErrorCode err = ''InsufficientInstanceCapacity'')\<rparr>"

definition world0 :: World where
  "world0 = \<lparr>launches = 0, fleetCalls = [], invalidated = [], unavailableOfferings = [],
     warnings = []\<rparr>"

definition iceError :: CreateFleetError where
  "iceError = \<lparr>ErrorCode = ''InsufficientInstanceCapacity'', ErrorMessage = ''no capacity'',
     ErrorInstanceType = ''m5.large'', ErrorAvailabilityZone = ''us-west-2a''\<rparr>"

definition otherError :: CreateFleetError where
  "otherError = \<lparr>ErrorCode = ''InvalidParameter'', ErrorMessage = ''bad request'',
     ErrorInstanceType = ''m5.large'', ErrorAvailabilityZone = ''us-west-2a''\<rparr>"

definition demoConfig :: FleetLaunchTemplateConfigRequest where
  "demoConfig =
     \<lparr>Overrides = [\<lparr>OverrideInstanceType = ''m5.large'', OverrideSubnetId = ''subnet-1'',
                     OverrideAvailabilityZone = ''us-west-2a''\<rparr>],
      LaunchTemplateName = ''karpenter-lt'', LaunchTemplateId = [], Version = ''$Latest''\<rparr>"

definition notFound :: error where
  "notFound = AwsError ''InvalidLaunchTemplateName.NotFoundException'' None"

definition throttled :: error where
  "throttled = AwsError ''RequestLimitExceeded'' None"









definition demoFamily :: AMIFamily where
  "demoFamily =
     \<lparr>IsCustom = False,
      FeatureFlags = \<lparr>UsesENILimitedMemoryOverhead = True, PodsPerCoreEnabled = True,
                       EvictionSoftEnabled = True, SupportsENILimitedPodDensity = True\<rparr>,
      EphemeralBlockDevice = Some ''/dev/xvda'',
      DefaultBlockDeviceMappings =
        [\<lparr>DeviceName = Some ''/dev/xvda'', EBS = Some \<lparr>VolumeSize = Some (20 * Gi)\<rparr>,
          RootVolume = False\<rparr>]\<rparr>"

definition hddInfo :: InstanceTypeInfo where
  "hddInfo = \<lparr>InstanceType = ''d2.xlarge'', SupportedUsageClasses = [''on-demand'', ''spot''],
     InstanceStorageInfo = Some \<lparr>TotalSizeInGB = Some 6000, NvmeSupport = Some ''unsupported''\<rparr>\<rparr>"

definition nvmeInfo :: InstanceTypeInfo where
  "nvmeInfo = \<lparr>InstanceType = ''m5d.large'', SupportedUsageClasses = [''on-demand'', ''spot''],
     InstanceStorageInfo = Some \<lparr>TotalSizeInGB = Some 75, NvmeSupport = Some ''required''\<rparr>\<rparr>"

definition rootMapping :: BlockDeviceMapping where
  "rootMapping = \<lparr>DeviceName = Some ''/dev/xvda'', EBS = Some \<lparr>VolumeSize = Some (100 * Gi)\<rparr>,
     RootVolume = True\<rparr>"

definition noSubnets :: error where
  "noSubnets = ErrorString ''no subnets exist given constraints''"

text \<open>
  A controller whose patches succeed and whose resolvers leave the node class as it is:
  the AMI and security group resolvers ask for a requeue after five minutes, the subnet
  resolver returns what is given, the other two return the zero result.
\<close>

definition demoController :: "Result \<times> error option \<Rightarrow> unit Controller" where
  "demoController subnetOutcome =
     \<lparr>kubeClientPatch = (\<lambda>nodeClass stored. None),
      kubeClientStatusPatch = (\<lambda>nodeClass stored. None),
      IsNotFound = (\<lambda>err. False),
      ami = (\<lambda>nodeClass. ((\<lparr>Requeue = False, RequeueAfter = 5 * Minute\<rparr>, None), nodeClass)),
      subnet = (\<lambda>nodeClass. (subnetOutcome, nodeClass)),
      securitygroup =
        (\<lambda>nodeClass. ((\<lparr>Requeue = False, RequeueAfter = 5 * Minute\<rparr>, None), nodeClass)),
      instanceprofile = (\<lambda>nodeClass. ((zeroResult, None), nodeClass)),
      readiness = (\<lambda>nodeClass. ((zeroResult, None), nodeClass))\<rparr>"

definition demoNodeClass :: "unit EC2NodeClass" where
  "demoNodeClass = \<lparr>Finalizers = [''karpenter.k8s.aws/termination''], Content = ()\<rparr>"

section \<open>Capacity type selection\<close>

lemma spotOfferingIn_iff:
  "spotOfferingIn requirements ofs \<longleftrightarrow>
     (\<exists>offering \<in> set ofs. Get requirements LabelTopologyZone (Zone offering)
                           \<and> CapacityType offering = CapacityTypeSpot)"
  by (induction ofs) auto

lemma spotOfferingAmong_iff:
  "spotOfferingAmong requirements its \<longleftrightarrow>
     (\<exists>it \<in> set its. \<exists>offering \<in> set (Offerings it). Available offering
        \<and> Get requirements LabelTopologyZone (Zone offering)
        \<and> CapacityType offering = CapacityTypeSpot)"
  by (induction its) (auto simp: spotOfferingIn_iff AvailableOfs_def)

text \<open>
  C4. The capacity type selected for a machine and a candidate list is spot exactly when the
  machine's requirements admit spot and some candidate has an available spot offering in a
  zone the requirements admit; in every other case it is on-demand.
\<close>

theorem getCapacityType_spot_iff:
  "(getCapacityType machine instanceTypes = CapacityTypeSpot \<longleftrightarrow>
      Get (SpecRequirements machine) LabelCapacityType CapacityTypeSpot
      \<and> (\<exists>it \<in> set instanceTypes. \<exists>offering \<in> set (Offerings it).
            Available offering
            \<and> CapacityType offering = CapacityTypeSpot
            \<and> Get (SpecRequirements machine) LabelTopologyZone (Zone offering)))
   \<and> (getCapacityType machine instanceTypes \<noteq> CapacityTypeSpot \<longrightarrow>
        getCapacityType machine instanceTypes = CapacityTypeOnDemand)"
  by (auto simp: getCapacityType_def Let_def spotOfferingAmong_iff
        CapacityTypeSpot_def CapacityTypeOnDemand_def)

theorem getCapacityType_spot_iff_witness:
  "getCapacityType anyMachine [demoType] = CapacityTypeSpot
   \<and> getCapacityType onDemandMachine [demoType] \<noteq> CapacityTypeSpot
   \<and> getCapacityType onDemandMachine [demoType] = CapacityTypeOnDemand"
proof -
  have a: "getCapacityType anyMachine [demoType] = CapacityTypeSpot"
    using getCapacityType_spot_iff [of anyMachine "[demoType]"]
    by (simp add: anyMachine_def demoType_def demoSpot_def Get_def CapacityTypeSpot_def)
  have b: "getCapacityType onDemandMachine [demoType] \<noteq> CapacityTypeSpot"
    using getCapacityType_spot_iff [of onDemandMachine "[demoType]"]
    by (simp add: onDemandMachine_def Get_def CapacityTypeSpot_def CapacityTypeOnDemand_def
          LabelCapacityType_def)
  from b have c: "getCapacityType onDemandMachine [demoType] = CapacityTypeOnDemand"
    using getCapacityType_spot_iff [of onDemandMachine "[demoType]"] by blast
  from a b c show ?thesis by blast
qed

section \<open>Fleet responses without instances\<close>

lemma count_all_iff:
  "length (filter P xs) = length xs \<longleftrightarrow> (\<forall>x \<in> set xs. P x)"
proof
  assume full: "length (filter P xs) = length xs"
  show "\<forall>x \<in> set xs. P x"
  proof
    fix x assume "x \<in> set xs"
    then show "P x" using full length_filter_less [of x xs P] by auto
  qed
next
  assume "\<forall>x \<in> set xs. P x"
  then show "length (filter P xs) = length xs" by simp
qed

lemma combineFleetErrors_cases:
  "combineFleetErrors isICE errors =
     (if \<forall>e \<in> set errors. isICE e
      then InsufficientCapacityError
             (Errorf ''with fleet error(s), %w'' (Multi (fleetErrorText ` set errors)))
      else Errorf ''with fleet error(s), %w'' (Multi (fleetErrorText ` set errors)))"
  by (simp add: combineFleetErrors_def Let_def count_all_iff)

lemma launchInstance_reaches_fleet:
  assumes "ZonalSubnetsForLaunch p (launches w) its (getCapacityType machine its) = Inr zonalSubnets"
    and "getLaunchTemplateConfigs p (launches w) machine its zonalSubnets
           (getCapacityType machine its) = Inr configs"
    and "CreateFleet p (launches w) (createFleetInput configs (getCapacityType machine its)) = Inr out"
    and "noInstances out"
  shows "fst (launchInstance p machine its w)
           = Inl (combineFleetErrors (IsUnfulfillableCapacity p) (Errors out))"
  using assms
  by (auto simp: launchInstance_def Let_def noInstances_def split: list.splits)

text \<open>
  C1. When the fleet call succeeds and returns no instance, \<^verbatim>\<open>launchInstance\<close> fails with
  the combination of the per-offering fleet errors (their distinct \<^verbatim>\<open>code: message\<close>
  texts), and that error is the dedicated insufficient-capacity error exactly when every
  per-offering error of the response is classified as a capacity error.
\<close>

theorem launchInstance_zero_instances:
  assumes "ZonalSubnetsForLaunch p (launches w) its (getCapacityType machine its) = Inr zonalSubnets"
    and "getLaunchTemplateConfigs p (launches w) machine its zonalSubnets
           (getCapacityType machine its) = Inr configs"
    and "CreateFleet p (launches w) (createFleetInput configs (getCapacityType machine its)) = Inr out"
    and "noInstances out"
  shows "\<exists>err. fst (launchInstance p machine its w) = Inl err
           \<and> (err = Errorf ''with fleet error(s), %w'' (Multi (fleetErrorText ` set (Errors out)))
              \<or> err = InsufficientCapacityError
                   (Errorf ''with fleet error(s), %w'' (Multi (fleetErrorText ` set (Errors out)))))
           \<and> (IsInsufficientCapacityError err \<longleftrightarrow>
                (\<forall>e \<in> set (Errors out). IsUnfulfillableCapacity p e))"
  using launchInstance_reaches_fleet [OF assms]
  by (simp add: combineFleetErrors_cases IsInsufficientCapacityError_def)

lemma demo_capacityType: "getCapacityType anyMachine [demoType] = ''spot''"
  by (simp add: getCapacityType_def anyMachine_def demoType_def demoSpot_def Get_def
        CapacityTypeSpot_def AvailableOfs_def)

lemma demo_subnets:
  "ZonalSubnetsForLaunch (demoProvider fleet) n [demoType] ''spot''
     = Inr [''us-west-2a'' \<mapsto> demoSubnet]"
  by (simp add: demoProvider_def)

lemma demo_configs:
  "getLaunchTemplateConfigs (demoProvider fleet) n anyMachine [demoType]
     [''us-west-2a'' \<mapsto> demoSubnet] ''spot'' = Inr [demoConfig]"
  by (simp add: getLaunchTemplateConfigs_def demoProvider_def getOverrides_def anyMachine_def
        demoType_def demoSpot_def Get_def AvailableOfs_def demoSubnet_def demoConfig_def Let_def)

theorem launchInstance_zero_instances_witness:
  "fst (launchInstance (demoProvider (\<lambda>n. Inr \<lparr>Instances = [], Errors = [iceError, otherError]\<rparr>))
          anyMachine [demoType] world0)
     = Inl (Errorf ''with fleet error(s), %w''
              (Multi {''InsufficientInstanceCapacity: no capacity'', ''InvalidParameter: bad request''}))
   \<and> fst (launchInstance (demoProvider (\<lambda>n. Inr \<lparr>Instances = [], Errors = [iceError, iceError]\<rparr>))
          anyMachine [demoType] world0)
     = Inl (InsufficientCapacityError (Errorf ''with fleet error(s), %w''
              (Multi {''InsufficientInstanceCapacity: no capacity''})))"
proof -
  let ?mixed = "\<lparr>Instances = [], Errors = [iceError, otherError]\<rparr>"
  let ?ice = "\<lparr>Instances = [], Errors = [iceError, iceError]\<rparr>"
  have fleet: "CreateFleet (demoProvider (\<lambda>n. Inr out)) n input = Inr out" for out n input
    by (simp add: demoProvider_def)
  have classify: "IsUnfulfillableCapacity (demoProvider f) iceError"
    "\<not> IsUnfulfillableCapacity (demoProvider f) otherError" for f
    by (simp_all add: demoProvider_def iceError_def otherError_def)
  have texts: "fleetErrorText iceError = ''InsufficientInstanceCapacity: no capacity''"
    "fleetErrorText otherError = ''InvalidParameter: bad request''"
    by (simp_all add: fleetErrorText_def iceError_def otherError_def)
  have a: "fst (launchInstance (demoProvider (\<lambda>n. Inr ?mixed)) anyMachine [demoType] world0)
     = Inl (Errorf ''with fleet error(s), %w''
              (Multi {''InsufficientInstanceCapacity: no capacity'', ''InvalidParameter: bad request''}))"
    using launchInstance_zero_instances [of "demoProvider (\<lambda>n. Inr ?mixed)" world0 "[demoType]"
        anyMachine "[''us-west-2a'' \<mapsto> demoSubnet]" "[demoConfig]" ?mixed]
    by (auto simp: demo_capacityType demo_subnets demo_configs fleet noInstances_def classify texts
          IsInsufficientCapacityError_def)
  have b: "fst (launchInstance (demoProvider (\<lambda>n. Inr ?ice)) anyMachine [demoType] world0)
     = Inl (InsufficientCapacityError (Errorf ''with fleet error(s), %w''
              (Multi {''InsufficientInstanceCapacity: no capacity''})))"
    using launchInstance_zero_instances [of "demoProvider (\<lambda>n. Inr ?ice)" world0 "[demoType]"
        anyMachine "[''us-west-2a'' \<mapsto> demoSubnet]" "[demoConfig]" ?ice]
    by (auto simp: demo_capacityType demo_subnets demo_configs fleet noInstances_def classify texts
          IsInsufficientCapacityError_def)
  from a b show ?thesis by simp
qed

lemma combineFleetErrors_not_ltnf:
  "\<not> IsLaunchTemplateNotFound (combineFleetErrors isICE errors)"
  by (simp add: combineFleetErrors_cases)

text \<open>
  C10. When the fleet call succeeds but returns neither an instance nor a per-offering
  error, the count of capacity errors (0) equals the number of errors (0), so
  \<^verbatim>\<open>launchInstance\<close> returns the dedicated insufficient-capacity error, wrapping a
  combination of no errors at all; \<^verbatim>\<open>Create\<close> does not retry and hands the same
  error to its caller.
\<close>

theorem launchInstance_empty_fleet_response:
  assumes "ZonalSubnetsForLaunch p (launches w) (launchCandidates machine its0)
             (getCapacityType machine (launchCandidates machine its0)) = Inr zonalSubnets"
    and "getLaunchTemplateConfigs p (launches w) machine (launchCandidates machine its0) zonalSubnets
           (getCapacityType machine (launchCandidates machine its0)) = Inr configs"
    and "CreateFleet p (launches w)
           (createFleetInput configs (getCapacityType machine (launchCandidates machine its0)))
           = Inr out"
    and "noInstances out"
    and "Errors out = []"
  shows "fst (launchInstance p machine (launchCandidates machine its0) w)
           = Inl (InsufficientCapacityError (Errorf ''with fleet error(s), %w'' (Multi {})))
       \<and> IsInsufficientCapacityError
           (InsufficientCapacityError (Errorf ''with fleet error(s), %w'' (Multi {})))
       \<and> fst (Create p machine its0 w)
           = Inl (InsufficientCapacityError (Errorf ''with fleet error(s), %w'' (Multi {})))"
proof -
  have l: "fst (launchInstance p machine (launchCandidates machine its0) w)
           = Inl (InsufficientCapacityError (Errorf ''with fleet error(s), %w'' (Multi {})))"
    using launchInstance_reaches_fleet [OF assms(1-4)] assms(5)
    by (simp add: combineFleetErrors_cases)
  then have c: "fst (Create p machine its0 w)
           = Inl (InsufficientCapacityError (Errorf ''with fleet error(s), %w'' (Multi {})))"
    by (simp add: Create_def Let_def isLaunchTemplateNotFoundResult_def)
  from l c show ?thesis by (simp add: IsInsufficientCapacityError_def)
qed

lemma demo_candidates: "launchCandidates anyMachine [demoType] = [demoType]"
  by (simp add: launchCandidates_def filterInstanceTypes_def filterExoticInstanceTypes_def
      Let_def exotic_def demoType_def Get_def IsZero_def isMixedCapacityLaunch_def anyMachine_def
      markInstanceType_def markOffering_def AvailableOfs_def demoSpot_def CapacityTypeSpot_def
      orderInstanceTypesByPrice_def sortSlice_def MaxInstanceTypes_def)

lemma demo_fleet: "CreateFleet (demoProvider fleet) n input = fleet n"
  by (simp add: demoProvider_def)

theorem launchInstance_empty_fleet_response_witness:
  "fst (Create (demoProvider (\<lambda>n. Inr \<lparr>Instances = [], Errors = []\<rparr>)) anyMachine [demoType] world0)
     = Inl (InsufficientCapacityError (Errorf ''with fleet error(s), %w'' (Multi {})))"
  using launchInstance_empty_fleet_response [of "demoProvider (\<lambda>n. Inr \<lparr>Instances = [], Errors = []\<rparr>)"
      world0 anyMachine "[demoType]" "[''us-west-2a'' \<mapsto> demoSubnet]" "[demoConfig]"
      "\<lparr>Instances = [], Errors = []\<rparr>"]
  by (simp add: demo_candidates demo_capacityType demo_subnets demo_configs noInstances_def
        demo_fleet)

section \<open>The retry on a missing launch template\<close>

lemma updateUnavailableOfferingsCache_keeps:
  "launches (updateUnavailableOfferingsCache p errors capacityType w) = launches w"
  "invalidated (updateUnavailableOfferingsCache p errors capacityType w) = invalidated w"
  "fleetCalls (updateUnavailableOfferingsCache p errors capacityType w) = fleetCalls w"
  unfolding updateUnavailableOfferingsCache_def
  by (induction errors arbitrary: w) (simp_all add: MarkUnavailableForFleetErr_def)

lemma launchInstance_launches:
  "launches (snd (launchInstance p machine its w)) = Suc (launches w)"
  by (simp add: launchInstance_def Let_def updateUnavailableOfferingsCache_keeps
        split: sum.splits option.splits list.splits)

lemma launchInstance_invalidated_grows:
  "set (invalidated w) \<subseteq> set (invalidated (snd (launchInstance p machine its w)))"
  by (simp add: launchInstance_def Let_def updateUnavailableOfferingsCache_keeps
        split: sum.splits option.splits list.splits)

lemma launchInstance_invalidates:
  assumes "isLaunchTemplateNotFoundResult (fst (launchInstance p machine its w))"
  shows "\<forall>lt \<in> set (resolvedTemplates p machine its w).
           (LaunchTemplateName lt, LaunchTemplateId lt)
             \<in> set (invalidated (snd (launchInstance p machine its w)))"
  using assms
  by (auto simp: launchInstance_def resolvedTemplates_def Let_def isLaunchTemplateNotFoundResult_def
        combineFleetErrors_not_ltnf split: sum.splits option.splits list.splits if_splits)

text \<open>
  C2. \<^verbatim>\<open>Create\<close> makes one attempt with \<^verbatim>\<open>launchInstance\<close>. If that attempt fails
  with a launch-template-not-found error, every launch template of the attempt's fleet
  request has been passed to \<^verbatim>\<open>Invalidate\<close>, and exactly one more attempt is made, from
  the world the first one left; the invalidations stay, and if the second attempt fails its
  error is what \<^verbatim>\<open>Create\<close> returns. If the first attempt does not fail that way,
  there is no second attempt, and a failure of the first is returned as it is.
\<close>

theorem Create_launch_template_retry:
  "(isLaunchTemplateNotFoundResult
      (fst (launchInstance p machine (launchCandidates machine its0) w)) \<longrightarrow>
      (\<forall>lt \<in> set (resolvedTemplates p machine (launchCandidates machine its0) w).
          (LaunchTemplateName lt, LaunchTemplateId lt)
            \<in> set (invalidated (snd (launchInstance p machine (launchCandidates machine its0) w))))
      \<and> snd (Create p machine its0 w)
          = snd (launchInstance p machine (launchCandidates machine its0)
                   (snd (launchInstance p machine (launchCandidates machine its0) w)))
      \<and> launches (snd (Create p machine its0 w)) = launches w + 2
      \<and> set (invalidated (snd (launchInstance p machine (launchCandidates machine its0) w)))
          \<subseteq> set (invalidated (snd (Create p machine its0 w)))
      \<and> (\<forall>err. fst (launchInstance p machine (launchCandidates machine its0)
                       (snd (launchInstance p machine (launchCandidates machine its0) w))) = Inl err
             \<longrightarrow> fst (Create p machine its0 w) = Inl err))
   \<and> (\<not> isLaunchTemplateNotFoundResult
          (fst (launchInstance p machine (launchCandidates machine its0) w)) \<longrightarrow>
      snd (Create p machine its0 w) = snd (launchInstance p machine (launchCandidates machine its0) w)
      \<and> launches (snd (Create p machine its0 w)) = launches w + 1
      \<and> (\<forall>err. fst (launchInstance p machine (launchCandidates machine its0) w) = Inl err
             \<longrightarrow> fst (Create p machine its0 w) = Inl err))"
proof -
  let ?its = "launchCandidates machine its0"
  let ?first = "launchInstance p machine ?its w"
  let ?second = "launchInstance p machine ?its (snd ?first)"
  have world: "snd (Create p machine its0 w)
                 = (if isLaunchTemplateNotFoundResult (fst ?first) then snd ?second else snd ?first)"
    by (simp add: Create_def Let_def split: sum.splits)
  have failure: "fst (Create p machine its0 w) = Inl err"
    if "fst (if isLaunchTemplateNotFoundResult (fst ?first) then ?second else ?first) = Inl err"
    for err
    using that by (simp add: Create_def Let_def split: sum.splits)
  show ?thesis
  proof (cases "isLaunchTemplateNotFoundResult (fst ?first)")
    case True
    have "launches (snd ?second) = launches w + 2"
      by (simp add: launchInstance_launches)
    moreover have "set (invalidated (snd ?first)) \<subseteq> set (invalidated (snd ?second))"
      by (rule launchInstance_invalidated_grows)
    ultimately show ?thesis
      using True world failure launchInstance_invalidates [OF True] by simp
  next
    case False
    have "launches (snd ?first) = launches w + 1"
      by (simp add: launchInstance_launches)
    then show ?thesis
      using False world failure by simp
  qed
qed

lemma demo_fallback: "checkODFallback anyMachine [demoType] configs = None"
  by (simp add: checkODFallback_def demo_capacityType CapacityTypeOnDemand_def)

lemma demo_launch_fails:
  "fleet (launches w) = Inl err \<Longrightarrow> asRequestFailure err = None \<Longrightarrow>
   launchInstance (demoProvider fleet) anyMachine [demoType] w
     = (Inl (Errorf ''creating fleet %w'' err),
        w\<lparr>launches := Suc (launches w),
          fleetCalls := fleetCalls w @ [createFleetInput [demoConfig] ''spot''],
          invalidated := invalidated w
             @ (if IsLaunchTemplateNotFound err then [(''karpenter-lt'', [])] else [])\<rparr>)"
  by (simp add: launchInstance_def Let_def demo_capacityType demo_subnets demo_configs demo_fleet
        demo_fallback demoConfig_def)

theorem Create_launch_template_retry_witness:
  "fst (Create (demoProvider (\<lambda>n. Inl notFound)) anyMachine [demoType] world0)
     = Inl (Errorf ''creating fleet %w'' notFound)
   \<and> launches (snd (Create (demoProvider (\<lambda>n. Inl notFound)) anyMachine [demoType] world0)) = 2
   \<and> (''karpenter-lt'', [])
       \<in> set (invalidated (snd (Create (demoProvider (\<lambda>n. Inl notFound)) anyMachine [demoType] world0)))
   \<and> fst (Create (demoProvider (\<lambda>n. Inl throttled)) anyMachine [demoType] world0)
     = Inl (Errorf ''creating fleet %w'' throttled)
   \<and> launches (snd (Create (demoProvider (\<lambda>n. Inl throttled)) anyMachine [demoType] world0)) = 1"
proof -
  have nf: "IsLaunchTemplateNotFound notFound" "asRequestFailure notFound = None"
    by (simp_all add: notFound_def launchTemplateNotFoundCode_def)
  have th: "\<not> IsLaunchTemplateNotFound throttled" "asRequestFailure throttled = None"
    by (simp_all add: throttled_def launchTemplateNotFoundCode_def)
  have first_nf: "launchInstance (demoProvider (\<lambda>n. Inl notFound)) anyMachine [demoType] w
     = (Inl (Errorf ''creating fleet %w'' notFound),
        w\<lparr>launches := Suc (launches w),
          fleetCalls := fleetCalls w @ [createFleetInput [demoConfig] ''spot''],
          invalidated := invalidated w @ [(''karpenter-lt'', [])]\<rparr>)" for w
    using demo_launch_fails [of "\<lambda>n. Inl notFound" w notFound] nf by simp
  have first_th: "launchInstance (demoProvider (\<lambda>n. Inl throttled)) anyMachine [demoType] w
     = (Inl (Errorf ''creating fleet %w'' throttled),
        w\<lparr>launches := Suc (launches w),
          fleetCalls := fleetCalls w @ [createFleetInput [demoConfig] ''spot'']\<rparr>)" for w
    using demo_launch_fails [of "\<lambda>n. Inl throttled" w throttled] th by simp
  have a: "fst (Create (demoProvider (\<lambda>n. Inl notFound)) anyMachine [demoType] world0)
       = Inl (Errorf ''creating fleet %w'' notFound)
     \<and> launches (snd (Create (demoProvider (\<lambda>n. Inl notFound)) anyMachine [demoType] world0)) = 2
     \<and> (''karpenter-lt'', [])
       \<in> set (invalidated (snd (Create (demoProvider (\<lambda>n. Inl notFound)) anyMachine [demoType] world0)))"
    using Create_launch_template_retry [of "demoProvider (\<lambda>n. Inl notFound)" anyMachine "[demoType]" world0]
    by (auto simp: demo_candidates first_nf isLaunchTemplateNotFoundResult_def nf world0_def)
  have b: "fst (Create (demoProvider (\<lambda>n. Inl throttled)) anyMachine [demoType] world0)
       = Inl (Errorf ''creating fleet %w'' throttled)
     \<and> launches (snd (Create (demoProvider (\<lambda>n. Inl throttled)) anyMachine [demoType] world0)) = 1"
    using Create_launch_template_retry [of "demoProvider (\<lambda>n. Inl throttled)" anyMachine "[demoType]" world0]
    by (auto simp: demo_candidates first_th isLaunchTemplateNotFoundResult_def th world0_def)
  from a b show ?thesis by simp
qed

section \<open>Ordering of the candidates\<close>




















section \<open>Filtering in a mixed launch\<close>














section \<open>Offerings of the catalog\<close>





section \<open>Eviction thresholds\<close>







section \<open>Ephemeral storage\<close>

lemma findDevice_find:
  assumes "list_all (\<lambda>bdm. EBS bdm \<noteq> None \<and> DeviceName bdm \<noteq> None) bdms"
    and "ephemeral \<noteq> None"
  shows "findDevice ephemeral bdms = Inr (find (\<lambda>bdm. DeviceName bdm = ephemeral) bdms)"
  using assms by (induction bdms) auto

lemma ebsVolumeSize_sizeOf:
  "EBS bdm \<noteq> None \<Longrightarrow> ebsVolumeSize bdm = Inr (sizeOf bdm)"
  by (auto simp: ebsVolumeSize_def sizeOf_def)

lemma find_member: "find P xs = Some x \<Longrightarrow> x \<in> set xs"
  by (induction xs) (auto split: if_splits)

lemma familyDefaultStorage_total:
  assumes "noNilPointers amiFamily bdms"
  shows "familyDefaultStorage amiFamily
           = Inr (case find (\<lambda>bdm. DeviceName bdm = EphemeralBlockDevice amiFamily)
                         (DefaultBlockDeviceMappings amiFamily) of
                    Some bdm \<Rightarrow> sizeOf bdm
                  | None \<Rightarrow> DefaultEBSVolumeSize)"
proof (cases "EphemeralBlockDevice amiFamily")
  case None
  with assms have "DefaultBlockDeviceMappings amiFamily = []"
    by (simp add: noNilPointers_def)
  then show ?thesis by (simp add: familyDefaultStorage_def)
next
  case (Some ephemeral)
  from assms have all: "list_all (\<lambda>bdm. EBS bdm \<noteq> None \<and> DeviceName bdm \<noteq> None)
                          (DefaultBlockDeviceMappings amiFamily)"
    by (simp add: noNilPointers_def)
  have f: "findDevice (EphemeralBlockDevice amiFamily) (DefaultBlockDeviceMappings amiFamily)
             = Inr (find (\<lambda>bdm. DeviceName bdm = EphemeralBlockDevice amiFamily)
                      (DefaultBlockDeviceMappings amiFamily))"
    using findDevice_find [OF all] Some by simp
  show ?thesis
  proof (cases "find (\<lambda>bdm. DeviceName bdm = EphemeralBlockDevice amiFamily)
                  (DefaultBlockDeviceMappings amiFamily)")
    case None
    with f show ?thesis by (simp add: familyDefaultStorage_def)
  next
    case (Some bdm)
    then have "bdm \<in> set (DefaultBlockDeviceMappings amiFamily)" by (rule find_member)
    with all have "EBS bdm \<noteq> None" by (simp add: list_all_iff)
    with f Some show ?thesis by (simp add: familyDefaultStorage_def ebsVolumeSize_sizeOf)
  qed
qed

lemma ephemeralStorage_coded:
  assumes nn: "noNilPointers amiFamily bdms"
  shows "ephemeralStorage info amiFamily bdms policy
           = Inr (codedEphemeralStorage info amiFamily bdms policy)"
proof -
  from nn have all: "list_all (\<lambda>bdm. EBS bdm \<noteq> None \<and> DeviceName bdm \<noteq> None) bdms"
    by (simp add: noNilPointers_def)
  have ebs: "ebsVolumeSize bdm = Inr (sizeOf bdm)" if "bdm \<in> set bdms" for bdm
    using that all by (simp add: list_all_iff ebsVolumeSize_sizeOf)
  note fam = familyDefaultStorage_total [OF nn]
  show ?thesis
  proof (cases "raid0Size info policy")
    case (Some localStore)
    then show ?thesis by (simp add: ephemeralStorage_def codedEphemeralStorage_def orElse_def)
  next
    case None
    note raid = None
    show ?thesis
    proof (cases "bdms = []")
      case True
      with raid fam show ?thesis
        by (simp add: ephemeralStorage_def codedEphemeralStorage_def orElse_def)
    next
      case False
      have root: "(case find RootVolume bdms of None \<Rightarrow> Inr None
                    | Some blockDeviceMapping \<Rightarrow> ebsVolumeSize blockDeviceMapping)
                  = Inr (case find RootVolume bdms of None \<Rightarrow> None | Some bdm \<Rightarrow> sizeOf bdm)"
        using ebs find_member [of RootVolume bdms] by (auto split: option.splits)
      show ?thesis
      proof (cases "case find RootVolume bdms of None \<Rightarrow> None | Some bdm \<Rightarrow> sizeOf bdm")
        case (Some volumeSize)
        with raid False root show ?thesis
          by (simp add: ephemeralStorage_def codedEphemeralStorage_def orElse_def)
      next
        case None
        note noroot = None
        show ?thesis
        proof (cases "IsCustom amiFamily")
          case True
          from False have "last bdms \<in> set bdms" by simp
          then have "ebsVolumeSize (last bdms) = Inr (sizeOf (last bdms))" by (rule ebs)
          with raid False root noroot True show ?thesis
            by (simp add: ephemeralStorage_def codedEphemeralStorage_def orElse_def
                  split: option.splits)
        next
          case notcustom: False
          with nn have "EphemeralBlockDevice amiFamily \<noteq> None"
            by (auto simp: noNilPointers_def)
          then have fd: "findDevice (EphemeralBlockDevice amiFamily) bdms
                     = Inr (find (\<lambda>bdm. DeviceName bdm = EphemeralBlockDevice amiFamily) bdms)"
            using findDevice_find [OF all] by simp
          show ?thesis
          proof (cases "find (\<lambda>bdm. DeviceName bdm = EphemeralBlockDevice amiFamily) bdms")
            case None
            with raid False root noroot notcustom fd fam show ?thesis
              by (simp add: ephemeralStorage_def codedEphemeralStorage_def orElse_def)
          next
            case (Some bdm)
            then have "bdm \<in> set bdms" by (rule find_member)
            then have "ebsVolumeSize bdm = Inr (sizeOf bdm)" by (rule ebs)
            with raid False root noroot notcustom fd fam Some show ?thesis
              by (simp add: ephemeralStorage_def codedEphemeralStorage_def orElse_def
                    split: option.splits)
          qed
        qed
      qed
    qed
  qed
qed

lemma find_single:
  "length (filter P xs) \<le> 1 \<Longrightarrow>
   (case find (\<lambda>x. P x \<and> f x \<noteq> None) xs of None \<Rightarrow> None | Some x \<Rightarrow> f x)
     = (case find P xs of None \<Rightarrow> None | Some x \<Rightarrow> f x)"
proof (induction xs)
  case Nil
  show ?case by simp
next
  case (Cons x xs)
  show ?case
  proof (cases "P x")
    case True
    with Cons.prems have "filter P xs = []" by simp
    then have "find (\<lambda>x. P x \<and> f x \<noteq> None) xs = None"
      by (induction xs) (auto split: if_splits)
    with True show ?thesis by (cases "f x") auto
  next
    case False
    with Cons show ?thesis by simp
  qed
qed

lemma specified_coded:
  assumes "singleCandidates amiFamily bdms"
    and "raid0Size info policy \<noteq> None \<longrightarrow> localNVMe info"
  shows "specifiedEphemeralStorage info amiFamily bdms policy
           = codedEphemeralStorage info amiFamily bdms policy"
proof -
  from assms(1) have r: "length (filter RootVolume bdms) \<le> 1"
    and d: "length (filter (\<lambda>bdm. DeviceName bdm = EphemeralBlockDevice amiFamily) bdms) \<le> 1"
    by (simp_all add: singleCandidates_def)
  from assms(2)
  have "(if localNVMe info then raid0Size info policy else None) = raid0Size info policy"
    by auto
  with find_single [OF r, of sizeOf] find_single [OF d, of sizeOf] show ?thesis
    by (simp only: specifiedEphemeralStorage_def codedEphemeralStorage_def)
qed

text \<open>
  C8, as amended. When no nil pointer is met, the ephemeral storage is, in this order of
  precedence: under the RAID0 policy the total size of the type's instance storage, if the
  type reports one, whether that storage is NVMe or not; else the volume size of the first
  mapping that is a root volume, if it has one; else, for the Custom family with at least
  one mapping, the size of the last mapping, or the default if it has none; else the size of
  the first mapping with the family's ephemeral device name, if it has one; else the size
  of the family's default mapping for that device; else the system default. Where at most
  one mapping is a root volume and at most one has the ephemeral device name, and a type
  under RAID0 with a total size has NVMe storage, this is the precedence as specified.
\<close>

theorem ephemeralStorage_precedence:
  assumes "noNilPointers amiFamily blockDeviceMappings"
  shows "ephemeralStorage info amiFamily blockDeviceMappings instanceStorePolicy
           = Inr (codedEphemeralStorage info amiFamily blockDeviceMappings instanceStorePolicy)
       \<and> (singleCandidates amiFamily blockDeviceMappings
            \<and> (raid0Size info instanceStorePolicy \<noteq> None \<longrightarrow> localNVMe info) \<longrightarrow>
          ephemeralStorage info amiFamily blockDeviceMappings instanceStorePolicy
            = Inr (specifiedEphemeralStorage info amiFamily blockDeviceMappings
                     instanceStorePolicy))"
  using ephemeralStorage_coded [OF assms] specified_coded by simp

lemma demo_noNil: "noNilPointers demoFamily [rootMapping]"
  by (simp add: noNilPointers_def demoFamily_def rootMapping_def)

text \<open>
  C8 as stated fails: \<open>hddInfo\<close> has instance storage of 6000 GB that is not NVMe. Under
  the RAID0 policy the code uses these 6000 GB, where the specified precedence passes on
  to the root volume of 100 GiB.
\<close>

theorem ephemeralStorage_raid0_without_nvme:
  "\<not> localNVMe hddInfo
   \<and> ephemeralStorage hddInfo demoFamily [rootMapping] (Some ''RAID0'')
       = Inr (Some (6000 * 1000000000))
   \<and> specifiedEphemeralStorage hddInfo demoFamily [rootMapping] (Some ''RAID0'')
       = Some (100 * Gi)
   \<and> 6000 * 1000000000 \<noteq> 100 * Gi"
  by (simp add: localNVMe_def hddInfo_def ephemeralStorage_def raid0Size_def
        InstanceStorePolicyRAID0_def specifiedEphemeralStorage_def orElse_def rootMapping_def
        sizeOf_def Gi_def)

theorem ephemeralStorage_precedence_witness:
  "noNilPointers demoFamily [rootMapping]
   \<and> ephemeralStorage hddInfo demoFamily [rootMapping] (Some ''RAID0'')
       = Inr (Some (6000 * 1000000000))
   \<and> ephemeralStorage hddInfo demoFamily [rootMapping] None = Inr (Some (100 * Gi))
   \<and> singleCandidates demoFamily [rootMapping]
   \<and> localNVMe nvmeInfo
   \<and> ephemeralStorage nvmeInfo demoFamily [rootMapping] (Some ''RAID0'')
       = Inr (Some (75 * 1000000000))"
proof -
  have coded: "codedEphemeralStorage hddInfo demoFamily [rootMapping] (Some ''RAID0'')
                 = Some (6000 * 1000000000)"
    "codedEphemeralStorage hddInfo demoFamily [rootMapping] None = Some (100 * Gi)"
    by (simp_all add: codedEphemeralStorage_def orElse_def raid0Size_def hddInfo_def
          InstanceStorePolicyRAID0_def rootMapping_def sizeOf_def)
  have single: "singleCandidates demoFamily [rootMapping]"
    by (simp add: singleCandidates_def rootMapping_def demoFamily_def)
  have nvme: "localNVMe nvmeInfo" by (simp add: localNVMe_def nvmeInfo_def)
  have spec: "specifiedEphemeralStorage nvmeInfo demoFamily [rootMapping] (Some ''RAID0'')
                = Some (75 * 1000000000)"
    by (simp add: specifiedEphemeralStorage_def orElse_def raid0Size_def nvmeInfo_def
          InstanceStorePolicyRAID0_def localNVMe_def)
  show ?thesis
    using ephemeralStorage_precedence [OF demo_noNil, of hddInfo "Some ''RAID0''"]
      ephemeralStorage_precedence [OF demo_noNil, of hddInfo None]
      ephemeralStorage_precedence [OF demo_noNil, of nvmeInfo "Some ''RAID0''"]
      demo_noNil single nvme
    unfolding coded spec by blast
qed

section \<open>Reconciling the node class status\<close>

lemma MinLoop_least:
  assumes "RequeueAfter result \<le> least"
  shows "RequeueAfter (MinLoop least result rs) \<le> least
       \<and> (\<forall>r \<in> set rs. \<not> IsZeroResult r \<longrightarrow>
             RequeueAfter (MinLoop least result rs) \<le> RequeueAfter r)"
  using assms
proof (induction rs arbitrary: least result)
  case Nil
  then show ?case by simp
next
  case (Cons r rs)
  show ?case
  proof (cases "IsZeroResult r")
    case True
    with Cons show ?thesis by simp
  next
    case False
    show ?thesis
    proof (cases "RequeueAfter r < least")
      case True
      have "RequeueAfter \<lparr>Requeue = True, RequeueAfter = RequeueAfter r\<rparr> \<le> RequeueAfter r"
        by simp
      from Cons.IH [OF this] True False show ?thesis by auto
    next
      case notless: False
      from Cons.IH [OF Cons.prems] notless False show ?thesis by auto
    qed
  qed
qed

lemma Min_result_least:
  "r \<in> set rs \<Longrightarrow> \<not> IsZeroResult r \<Longrightarrow> RequeueAfter (Min_result rs) \<le> RequeueAfter r"
  using MinLoop_least [of zeroResult MaxInt64 rs]
  by (simp add: Min_result_def zeroResult_def MaxInt64_def)

lemma runReconcilers_outcomes:
  "results (runReconcilers c nodeClass) = resultsOf (outcomes c nodeClass)"
  "errs (runReconcilers c nodeClass) = errorsOf (outcomes c nodeClass)"
  "object (runReconcilers c nodeClass) = snd (last (outcomes c nodeClass))"
  "invoked (runReconcilers c nodeClass)
     = [''ami'', ''subnet'', ''securitygroup'', ''instanceprofile'', ''readiness'']"
  by (simp_all add: runReconcilers_def invoke_def outcomes_def resultsOf_def errorsOf_def
        Let_def Append_def split: option.splits)

lemma Reconcile_after_finalizer:
  assumes "TerminationFinalizer \<in> set (Finalizers nodeClass)
           \<or> kubeClientPatch c (AddFinalizer nodeClass TerminationFinalizer) nodeClass = None"
  shows "Reconcile c nodeClass =
     (let stored = AddFinalizer nodeClass TerminationFinalizer;
          run = runReconcilers c stored;
          all = errs run @ statusPatchErrors c stored (object run)
      in ((if all \<noteq> [] then zeroResult else Min_result (results run), all),
          object run, invoked run))"
proof (cases "TerminationFinalizer \<in> set (Finalizers nodeClass)")
  case True
  then have "AddFinalizer nodeClass TerminationFinalizer = nodeClass"
    by (simp add: AddFinalizer_def)
  with True show ?thesis
    by (simp add: Reconcile_def Let_def statusPatchErrors_def Append_def IgnoreNotFound_def
          split: option.splits)
next
  case False
  with assms
  have "kubeClientPatch c (AddFinalizer nodeClass TerminationFinalizer) nodeClass = None"
    by simp
  with False show ?thesis
    by (simp add: Reconcile_def Let_def statusPatchErrors_def Append_def IgnoreNotFound_def
          split: option.splits)
qed

text \<open>
  C9, as amended. Unless adding the termination finalizer fails, \<^verbatim>\<open>Reconcile\<close> invokes
  the five resolvers in the order AMI, subnet, security group, instance profile, readiness,
  whatever the earlier ones return, and the error it returns is the accumulation of all
  their errors, followed by the error of the status patch if there is one. If that
  accumulation is not empty, the result returned with it is the zero result; if it is
  empty, the result is \<^verbatim>\<open>result.Min\<close> of the five results, whose delay is at most that
  of every resolver result that is not zero. If adding the finalizer fails, no resolver is
  invoked and the patch error is returned with the zero result.
\<close>

theorem Reconcile_accumulates:
  "(TerminationFinalizer \<in> set (Finalizers nodeClass)
      \<or> kubeClientPatch c (AddFinalizer nodeClass TerminationFinalizer) nodeClass = None \<longrightarrow>
      snd (snd (Reconcile c nodeClass))
        = [''ami'', ''subnet'', ''securitygroup'', ''instanceprofile'', ''readiness'']
      \<and> snd (fst (Reconcile c nodeClass))
        = errorsOf (outcomes c (AddFinalizer nodeClass TerminationFinalizer))
          @ statusPatchErrors c (AddFinalizer nodeClass TerminationFinalizer)
              (snd (last (outcomes c (AddFinalizer nodeClass TerminationFinalizer))))
      \<and> (snd (fst (Reconcile c nodeClass)) \<noteq> [] \<longrightarrow>
            fst (fst (Reconcile c nodeClass)) = zeroResult)
      \<and> (snd (fst (Reconcile c nodeClass)) = [] \<longrightarrow>
            fst (fst (Reconcile c nodeClass))
              = Min_result (resultsOf (outcomes c (AddFinalizer nodeClass TerminationFinalizer)))
            \<and> (\<forall>r \<in> set (resultsOf (outcomes c (AddFinalizer nodeClass TerminationFinalizer))).
                  \<not> IsZeroResult r \<longrightarrow>
                  RequeueAfter (fst (fst (Reconcile c nodeClass))) \<le> RequeueAfter r)))
   \<and> (\<forall>err. TerminationFinalizer \<notin> set (Finalizers nodeClass)
          \<and> kubeClientPatch c (AddFinalizer nodeClass TerminationFinalizer) nodeClass = Some err \<longrightarrow>
          fst (Reconcile c nodeClass) = (zeroResult, [err])
          \<and> snd (snd (Reconcile c nodeClass)) = [])"
proof -
  let ?stored = "AddFinalizer nodeClass TerminationFinalizer"
  let ?os = "outcomes c ?stored"
  let ?all = "errorsOf ?os @ statusPatchErrors c ?stored (snd (last ?os))"
  have ok: "Reconcile c nodeClass
              = ((if ?all \<noteq> [] then zeroResult else Min_result (resultsOf ?os), ?all),
                 snd (last ?os),
                 [''ami'', ''subnet'', ''securitygroup'', ''instanceprofile'', ''readiness''])"
    if "TerminationFinalizer \<in> set (Finalizers nodeClass)
        \<or> kubeClientPatch c ?stored nodeClass = None"
    using Reconcile_after_finalizer [OF that]
    by (simp only: Let_def runReconcilers_outcomes)
  have least: "\<forall>r \<in> set (resultsOf ?os). \<not> IsZeroResult r \<longrightarrow>
                 RequeueAfter (Min_result (resultsOf ?os)) \<le> RequeueAfter r"
    using Min_result_least by blast
  have failed: "fst (Reconcile c nodeClass) = (zeroResult, [err])
                \<and> snd (snd (Reconcile c nodeClass)) = []"
    if "TerminationFinalizer \<notin> set (Finalizers nodeClass)"
      and "kubeClientPatch c ?stored nodeClass = Some err" for err
    using that by (simp add: Reconcile_def Let_def)
  show ?thesis
  proof (intro conjI impI allI)
    assume a: "TerminationFinalizer \<in> set (Finalizers nodeClass)
               \<or> kubeClientPatch c ?stored nodeClass = None"
    note r = ok [OF a]
    show "snd (snd (Reconcile c nodeClass))
            = [''ami'', ''subnet'', ''securitygroup'', ''instanceprofile'', ''readiness'']"
      by (simp add: r)
    show "snd (fst (Reconcile c nodeClass)) = ?all"
      by (simp add: r)
    show "fst (fst (Reconcile c nodeClass)) = zeroResult"
      if "snd (fst (Reconcile c nodeClass)) \<noteq> []"
      using that by (simp add: r split: if_splits)
    have m: "fst (fst (Reconcile c nodeClass)) = Min_result (resultsOf ?os)"
      if "snd (fst (Reconcile c nodeClass)) = []"
      using that by (simp add: r split: if_splits)
    show "fst (fst (Reconcile c nodeClass)) = Min_result (resultsOf ?os)"
      if "snd (fst (Reconcile c nodeClass)) = []"
      using that by (rule m)
    show "\<forall>r \<in> set (resultsOf ?os). \<not> IsZeroResult r \<longrightarrow>
            RequeueAfter (fst (fst (Reconcile c nodeClass))) \<le> RequeueAfter r"
      if "snd (fst (Reconcile c nodeClass)) = []"
      using least m [OF that] by simp
  next
    fix err
    assume "TerminationFinalizer \<notin> set (Finalizers nodeClass)
            \<and> kubeClientPatch c ?stored nodeClass = Some err"
    then show "fst (Reconcile c nodeClass) = (zeroResult, [err])"
      and "snd (snd (Reconcile c nodeClass)) = []"
      using failed by blast+
  qed
qed


lemma demo_outcomes:
  "outcomes (demoController subnetOutcome) demoNodeClass
     = [((\<lparr>Requeue = False, RequeueAfter = 5 * Minute\<rparr>, None), demoNodeClass),
        (subnetOutcome, demoNodeClass),
        ((\<lparr>Requeue = False, RequeueAfter = 5 * Minute\<rparr>, None), demoNodeClass),
        ((zeroResult, None), demoNodeClass),
        ((zeroResult, None), demoNodeClass)]"
  by (simp add: outcomes_def demoController_def Let_def)

lemma demo_finalizer:
  "TerminationFinalizer \<in> set (Finalizers demoNodeClass)"
  "AddFinalizer demoNodeClass TerminationFinalizer = demoNodeClass"
  by (simp_all add: AddFinalizer_def demoNodeClass_def TerminationFinalizer_def)

lemma demo_min:
  "Min_result [\<lparr>Requeue = False, RequeueAfter = 5 * Minute\<rparr>, zeroResult,
               \<lparr>Requeue = False, RequeueAfter = 5 * Minute\<rparr>, zeroResult, zeroResult]
     = \<lparr>Requeue = True, RequeueAfter = 5 * Minute\<rparr>"
  by (simp add: Min_result_def IsZeroResult_def zeroResult_def Minute_def MaxInt64_def)

text \<open>
  C9 as stated fails: when the subnet resolver fails while the AMI and security group
  resolvers ask for a requeue after five minutes, the error is returned with the zero
  result, not with the five minutes that are the least delay of the resolver results.
\<close>

theorem Reconcile_error_drops_requeue:
  "fst (Reconcile (demoController (zeroResult, Some noSubnets)) demoNodeClass)
     = (zeroResult, [noSubnets])
   \<and> Min_result (resultsOf (outcomes (demoController (zeroResult, Some noSubnets)) demoNodeClass))
     = \<lparr>Requeue = True, RequeueAfter = 5 * Minute\<rparr>
   \<and> RequeueAfter zeroResult \<noteq> 5 * Minute"
proof -
  have "fst (Reconcile (demoController (zeroResult, Some noSubnets)) demoNodeClass)
          = (zeroResult, [noSubnets])"
    by (simp add: Reconcile_after_finalizer demo_finalizer Let_def runReconcilers_outcomes
          demo_outcomes errorsOf_def statusPatchErrors_def)
  moreover have "Min_result (resultsOf (outcomes (demoController (zeroResult, Some noSubnets))
                    demoNodeClass)) = \<lparr>Requeue = True, RequeueAfter = 5 * Minute\<rparr>"
    by (simp add: demo_outcomes resultsOf_def demo_min)
  moreover have "RequeueAfter zeroResult \<noteq> 5 * Minute"
    by (simp add: zeroResult_def Minute_def)
  ultimately show ?thesis by simp
qed

theorem Reconcile_accumulates_witness:
  "Reconcile (demoController (zeroResult, Some noSubnets)) demoNodeClass
     = ((zeroResult, [noSubnets]), demoNodeClass,
        [''ami'', ''subnet'', ''securitygroup'', ''instanceprofile'', ''readiness''])
   \<and> Reconcile (demoController (\<lparr>Requeue = False, RequeueAfter = 7 * Minute\<rparr>, None)) demoNodeClass
     = ((\<lparr>Requeue = True, RequeueAfter = 5 * Minute\<rparr>, []), demoNodeClass,
        [''ami'', ''subnet'', ''securitygroup'', ''instanceprofile'', ''readiness''])"
proof -
  let ?failing = "demoController (zeroResult, Some noSubnets)"
  let ?fine = "demoController (\<lparr>Requeue = False, RequeueAfter = 7 * Minute\<rparr>, None)"
  have same: "snd (last (outcomes (demoController o') demoNodeClass)) = demoNodeClass" for o'
    by (simp add: demo_outcomes)
  have nopatch: "statusPatchErrors c demoNodeClass demoNodeClass = []" for c :: "unit Controller"
    by (simp add: statusPatchErrors_def)
  have e1: "errorsOf (outcomes ?failing demoNodeClass) = [noSubnets]"
    by (simp add: demo_outcomes errorsOf_def)
  have e2: "errorsOf (outcomes ?fine demoNodeClass) = []"
    by (simp add: demo_outcomes errorsOf_def)
  have m2: "Min_result (resultsOf (outcomes ?fine demoNodeClass))
              = \<lparr>Requeue = True, RequeueAfter = 5 * Minute\<rparr>"
    by (simp add: demo_outcomes resultsOf_def Min_result_def IsZeroResult_def zeroResult_def
          Minute_def MaxInt64_def)
  have third: "fst (snd (Reconcile c demoNodeClass)) = demoNodeClass"
    if "snd (last (outcomes c demoNodeClass)) = demoNodeClass" for c :: "unit Controller"
    using that
    by (simp add: Reconcile_after_finalizer demo_finalizer Let_def runReconcilers_outcomes)
  have a: "Reconcile ?failing demoNodeClass
     = ((zeroResult, [noSubnets]), demoNodeClass,
        [''ami'', ''subnet'', ''securitygroup'', ''instanceprofile'', ''readiness''])"
    using Reconcile_accumulates [of demoNodeClass ?failing] third [OF same, of "(zeroResult, Some noSubnets)"]
    by (simp add: demo_finalizer same nopatch e1 prod_eq_iff)
  have b: "Reconcile ?fine demoNodeClass
     = ((\<lparr>Requeue = True, RequeueAfter = 5 * Minute\<rparr>, []), demoNodeClass,
        [''ami'', ''subnet'', ''securitygroup'', ''instanceprofile'', ''readiness''])"
    using Reconcile_accumulates [of demoNodeClass ?fine]
      third [OF same, of "(\<lparr>Requeue = False, RequeueAfter = 7 * Minute\<rparr>, None)"]
    by (simp add: demo_finalizer same nopatch e2 m2 prod_eq_iff)
  from a b show ?thesis by simp
qed

end
